theory Spec2Isabelle
  imports Main "HOL-Library.Char_ord" "HOL-Library.List_Lexorder"
begin

section \<open>The standard library the client is written against\<close>

text \<open>
  The client is glue around three packages of the Go standard library: \<^verbatim>\<open>encoding/json\<close>,
  \<^verbatim>\<open>net/http\<close> and \<^verbatim>\<open>fmt\<close>. What the client's code observes of them is modelled here:
  JSON text is parsed into a document tree, a tree is decoded into a struct following the
  struct's \<^verbatim>\<open>json:"..."\<close> tags, and a struct is encoded into a tree following the same tags.
  Go strings and byte slices are byte strings, that is values of type \<^typ>\<open>string\<close>.
\<close>

subsection \<open>JSON documents\<close>

datatype json =
    JNull
  | JBool bool
  | JNumber string
  | JString string
  | JArray "json list"
  | JObject "(string \<times> json) list"

text \<open>The JSON value kind that \<^verbatim>\<open>json.UnmarshalTypeError\<close> reports in its \<^verbatim>\<open>Value\<close> field.\<close>

fun json_kind :: "json \<Rightarrow> string" where
  "json_kind JNull = ''null''"
| "json_kind (JBool _) = ''bool''"
| "json_kind (JNumber _) = ''number''"
| "json_kind (JString _) = ''string''"
| "json_kind (JArray _) = ''array''"
| "json_kind (JObject _) = ''object''"

subsection \<open>Bytes, digits and UTF-8\<close>

definition byte :: "char \<Rightarrow> nat" where
  "byte c = of_char c"

definition is_digit :: "char \<Rightarrow> bool" where
  "is_digit c = (48 \<le> byte c \<and> byte c \<le> 57)"

definition is_lower :: "char \<Rightarrow> bool" where
  "is_lower c = (97 \<le> byte c \<and> byte c \<le> 122)"

definition is_upper :: "char \<Rightarrow> bool" where
  "is_upper c = (65 \<le> byte c \<and> byte c \<le> 90)"

definition hexval :: "char \<Rightarrow> nat option" where
  "hexval c =
     (if is_digit c then Some (byte c - 48)
      else if 97 \<le> byte c \<and> byte c \<le> 102 then Some (byte c - 87)
      else if 65 \<le> byte c \<and> byte c \<le> 70 then Some (byte c - 55)
      else None)"

definition chr :: "nat \<Rightarrow> char" where
  "chr n = char_of n"

text \<open>\<^verbatim>\<open>utf8.EncodeRune\<close>: surrogates and values beyond U+10FFFF become U+FFFD.\<close>

definition utf8_encode :: "nat \<Rightarrow> string" where
  "utf8_encode r =
     (if r < 128 then [chr r]
      else if r < 2048 then [chr (192 + r div 64), chr (128 + r mod 64)]
      else if (55296 \<le> r \<and> r < 57344) \<or> 1114111 < r then [chr 239, chr 191, chr 189]
      else if r < 65536 then
        [chr (224 + r div 4096), chr (128 + (r div 64) mod 64), chr (128 + r mod 64)]
      else
        [chr (240 + r div 262144), chr (128 + (r div 4096) mod 64),
         chr (128 + (r div 64) mod 64), chr (128 + r mod 64)])"

definition is_cont :: "char \<Rightarrow> bool" where
  "is_cont c = (128 \<le> byte c \<and> byte c \<le> 191)"

text \<open>
  \<^verbatim>\<open>utf8.DecodeRune\<close> on a sequence that starts with the non-ASCII byte \<open>c\<close> followed by
  \<open>cs\<close>: the width of the well-formed encoding that starts there, or \<open>None\<close> when the
  bytes are not well-formed UTF-8 (the decoder then consumes one byte).
\<close>

definition utf8_width :: "char \<Rightarrow> string \<Rightarrow> nat option" where
  "utf8_width c cs =
     (let b = byte c;
          sz = (if 194 \<le> b \<and> b \<le> 223 then 2 else if 224 \<le> b \<and> b \<le> 239 then 3
                else if 240 \<le> b \<and> b \<le> 244 then 4 else 0);
          lo = (if b = 224 then 160 else if b = 240 then 144 else 128);
          hi = (if b = 237 then 159 else if b = 244 then 143 else 191)
      in if sz = 0 \<or> length cs < sz - 1 then None
         else if \<not> (lo \<le> byte (cs ! 0) \<and> byte (cs ! 0) \<le> hi) then None
         else if sz = 2 then Some 2
         else if \<not> is_cont (cs ! 1) then None
         else if sz = 3 then Some 3
         else if \<not> is_cont (cs ! 2) then None
         else Some 4)"

text \<open>Four hexadecimal digits of a \<^verbatim>\<open>\uXXXX\<close> escape (\<^verbatim>\<open>getu4\<close> after the backslash and the u).\<close>

definition getu4 :: "string \<Rightarrow> nat option" where
  "getu4 cs =
     (if length cs < 4 then None
      else case (hexval (cs ! 0), hexval (cs ! 1), hexval (cs ! 2), hexval (cs ! 3)) of
             (Some a, Some b, Some c, Some d) \<Rightarrow> Some (((a * 16 + b) * 16 + c) * 16 + d)
           | _ \<Rightarrow> None)"

definition esc_char :: "char \<Rightarrow> char" where
  "esc_char e =
     (if e = CHR ''b'' then CHR 0x08 else if e = CHR ''f'' then CHR 0x0C
      else if e = CHR ''n'' then CHR 0x0A else if e = CHR ''r'' then CHR 0x0D
      else if e = CHR ''t'' then CHR 0x09 else e)"

text \<open>
  \<^verbatim>\<open>unquote\<close>: the Go string denoted by the inside of a JSON string literal that the scanner
  has accepted. Escapes are replaced, a surrogate pair of \<^verbatim>\<open>\u\<close> escapes becomes one rune, an
  unpaired surrogate becomes U+FFFD, and bytes that are not well-formed UTF-8 are replaced by
  U+FFFD one byte at a time.
\<close>

fun unquote :: "string \<Rightarrow> string" where
  "unquote [] = []"
| "unquote (c # r) =
     (if c = CHR 0x5C then
        (case r of
           [] \<Rightarrow> []
         | e # r' \<Rightarrow>
             if e = CHR ''u'' then
               (case getu4 r' of
                  None \<Rightarrow> []
                | Some u \<Rightarrow>
                    if 55296 \<le> u \<and> u < 56320 then
                      (case (if take 2 (drop 4 r') = [CHR 0x5C, CHR ''u''] then getu4 (drop 6 r') else None) of
                         None \<Rightarrow> utf8_encode 65533 @ unquote (drop 4 r')
                       | Some v \<Rightarrow>
                           if 56320 \<le> v \<and> v < 57344
                           then utf8_encode (65536 + (u - 55296) * 1024 + (v - 56320)) @ unquote (drop 10 r')
                           else utf8_encode 65533 @ unquote (drop 4 r'))
                    else utf8_encode u @ unquote (drop 4 r'))
             else esc_char e # unquote r')
      else if byte c < 128 then c # unquote r
      else (case utf8_width c r of
              None \<Rightarrow> utf8_encode 65533 @ unquote r
            | Some n \<Rightarrow> c # take (n - 1) r @ unquote (drop (n - 1) r)))"

subsection \<open>The scanner: which byte strings are JSON texts\<close>

text \<open>
  \<^verbatim>\<open>json.Unmarshal\<close> first runs \<^verbatim>\<open>checkValid\<close> over the whole input and touches the destination
  only when the input is one JSON value surrounded by optional white space. The scanner is a
  state machine that reads one byte at a time; here it is split into a lexer that reads bytes
  and a pushdown automaton that reads tokens.
\<close>

datatype token =
    TLBrace | TRBrace | TLBrack | TRBrack | TColon | TComma
  | TStr string
  | TLit json

datatype lstate =
    LIdle
  | LStr string
  | LEsc string
  | LHex string nat
  | LWord string

definition is_space :: "char \<Rightarrow> bool" where
  "is_space c = (c = CHR '' '' \<or> c = CHR 0x09 \<or> c = CHR 0x0D \<or> c = CHR 0x0A)"

definition is_wordchar :: "char \<Rightarrow> bool" where
  "is_wordchar c = (is_digit c \<or> is_lower c \<or> is_upper c \<or> c = CHR ''-'' \<or> c = CHR ''+'' \<or> c = CHR ''.'')"

definition exp_part :: "string \<Rightarrow> bool" where
  "exp_part r =
     (case r of
        [] \<Rightarrow> True
      | e # r' \<Rightarrow>
          (e = CHR ''e'' \<or> e = CHR ''E'') \<and>
          (let ds = (case r' of [] \<Rightarrow> [] | s # t \<Rightarrow> if s = CHR ''+'' \<or> s = CHR ''-'' then t else r')
           in ds \<noteq> [] \<and> list_all is_digit ds))"

definition frac_exp :: "string \<Rightarrow> bool" where
  "frac_exp r =
     (case r of
        [] \<Rightarrow> True
      | p # f \<Rightarrow>
          if p = CHR ''.'' then (case f of [] \<Rightarrow> False | d # _ \<Rightarrow> is_digit d \<and> exp_part (dropWhile is_digit f))
          else exp_part r)"

text \<open>The number grammar of the scanner: \<^verbatim>\<open>-?(0|[1-9][0-9]*)(\.[0-9]+)?([eE][+-]?[0-9]+)?\<close>.\<close>

definition valid_number :: "string \<Rightarrow> bool" where
  "valid_number w =
     (case (case w of [] \<Rightarrow> [] | s # t \<Rightarrow> if s = CHR ''-'' then t else w) of
        [] \<Rightarrow> False
      | d # r \<Rightarrow>
          if d = CHR ''0'' then frac_exp r
          else if is_digit d then frac_exp (dropWhile is_digit r)
          else False)"

definition word_token :: "string \<Rightarrow> token option" where
  "word_token w =
     (if w = ''true'' then Some (TLit (JBool True))
      else if w = ''false'' then Some (TLit (JBool False))
      else if w = ''null'' then Some (TLit JNull)
      else if valid_number w then Some (TLit (JNumber w))
      else None)"

definition lex_idle :: "token list \<Rightarrow> char \<Rightarrow> (lstate \<times> token list) option" where
  "lex_idle ts c =
     (if is_space c then Some (LIdle, ts)
      else if c = CHR ''{'' then Some (LIdle, TLBrace # ts)
      else if c = CHR ''}'' then Some (LIdle, TRBrace # ts)
      else if c = CHR ''['' then Some (LIdle, TLBrack # ts)
      else if c = CHR '']'' then Some (LIdle, TRBrack # ts)
      else if c = CHR '':'' then Some (LIdle, TColon # ts)
      else if c = CHR '','' then Some (LIdle, TComma # ts)
      else if c = CHR 0x22 then Some (LStr [], ts)
      else if is_wordchar c then Some (LWord [c], ts)
      else None)"

text \<open>
  One byte of input. Inside a string literal the raw bytes are collected in reverse; a byte
  below 0x20 is rejected there, and a backslash must start one of the escapes
  \<^verbatim>\<open>\" \\ \/ \b \f \n \r \t \uXXXX\<close>.
\<close>

fun lex_step :: "lstate \<Rightarrow> token list \<Rightarrow> char \<Rightarrow> (lstate \<times> token list) option" where
  "lex_step LIdle ts c = lex_idle ts c"
| "lex_step (LWord w) ts c =
     (if is_wordchar c then Some (LWord (c # w), ts)
      else case word_token (rev w) of None \<Rightarrow> None | Some t \<Rightarrow> lex_idle (t # ts) c)"
| "lex_step (LStr acc) ts c =
     (if c = CHR 0x22 then Some (LIdle, TStr (unquote (rev acc)) # ts)
      else if c = CHR 0x5C then Some (LEsc (c # acc), ts)
      else if byte c < 32 then None
      else Some (LStr (c # acc), ts))"
| "lex_step (LEsc acc) ts c =
     (if c = CHR ''b'' \<or> c = CHR ''f'' \<or> c = CHR ''n'' \<or> c = CHR ''r'' \<or> c = CHR ''t'' \<or>
         c = CHR 0x5C \<or> c = CHR ''/'' \<or> c = CHR 0x22
      then Some (LStr (c # acc), ts)
      else if c = CHR ''u'' then Some (LHex (c # acc) 4, ts)
      else None)"
| "lex_step (LHex acc n) ts c =
     (if hexval c = None then None
      else if n \<le> 1 then Some (LStr (c # acc), ts)
      else Some (LHex (c # acc) (n - 1), ts))"

fun lex :: "lstate \<Rightarrow> token list \<Rightarrow> string \<Rightarrow> token list option" where
  "lex st ts [] =
     (case st of
        LIdle \<Rightarrow> Some (rev ts)
      | LWord w \<Rightarrow> (case word_token (rev w) of None \<Rightarrow> None | Some t \<Rightarrow> Some (rev (t # ts)))
      | _ \<Rightarrow> None)"
| "lex st ts (c # cs) =
     (case lex_step st ts c of None \<Rightarrow> None | Some (st', ts') \<Rightarrow> lex st' ts' cs)"

datatype frame =
    FArr "json list"
  | FObj "(string \<times> json) list" string

datatype expect = EValue | EValueOrClose | EKeyOrClose | EKey | EColon | ECommaOrClose

datatype pstate =
    PS expect "frame list"
  | PDone json

definition maxNestingDepth :: nat where
  "maxNestingDepth = 10000"

text \<open>A value is complete: it ends the text, or it joins the array or object being read.\<close>

fun complete :: "json \<Rightarrow> frame list \<Rightarrow> pstate" where
  "complete v [] = PDone v"
| "complete v (FArr xs # st) = PS ECommaOrClose (FArr (v # xs) # st)"
| "complete v (FObj ms k # st) = PS ECommaOrClose (FObj ((k, v) # ms) k # st)"

definition wants_value :: "expect \<Rightarrow> bool" where
  "wants_value e = (e = EValue \<or> e = EValueOrClose)"

fun parse_step :: "pstate \<Rightarrow> token \<Rightarrow> pstate option" where
  "parse_step (PDone _) t = None"
| "parse_step (PS e st) (TLit v) = (if wants_value e then Some (complete v st) else None)"
| "parse_step (PS e st) (TStr s) =
     (if wants_value e then Some (complete (JString s) st)
      else if e = EKeyOrClose \<or> e = EKey then
        (case st of FObj ms _ # st' \<Rightarrow> Some (PS EColon (FObj ms s # st')) | _ \<Rightarrow> None)
      else None)"
| "parse_step (PS e st) TColon = (if e = EColon then Some (PS EValue st) else None)"
| "parse_step (PS e st) TComma =
     (if e = ECommaOrClose then
        (case st of
           FArr _ # _ \<Rightarrow> Some (PS EValue st)
         | FObj _ _ # _ \<Rightarrow> Some (PS EKey st)
         | [] \<Rightarrow> None)
      else None)"
| "parse_step (PS e st) TLBrack =
     (if wants_value e \<and> length st < maxNestingDepth then Some (PS EValueOrClose (FArr [] # st)) else None)"
| "parse_step (PS e st) TLBrace =
     (if wants_value e \<and> length st < maxNestingDepth then Some (PS EKeyOrClose (FObj [] [] # st)) else None)"
| "parse_step (PS e st) TRBrack =
     (if e = EValueOrClose \<or> e = ECommaOrClose then
        (case st of FArr xs # st' \<Rightarrow> Some (complete (JArray (rev xs)) st') | _ \<Rightarrow> None)
      else None)"
| "parse_step (PS e st) TRBrace =
     (if e = EKeyOrClose \<or> e = ECommaOrClose then
        (case st of FObj ms _ # st' \<Rightarrow> Some (complete (JObject (rev ms)) st') | _ \<Rightarrow> None)
      else None)"

fun parse_tokens :: "pstate \<Rightarrow> token list \<Rightarrow> pstate option" where
  "parse_tokens s [] = Some s"
| "parse_tokens s (t # ts) = (case parse_step s t of None \<Rightarrow> None | Some s' \<Rightarrow> parse_tokens s' ts)"

text \<open>The document a byte string denotes, \<open>None\<close> when \<^verbatim>\<open>checkValid\<close> reports a syntax error.\<close>

definition json_parse :: "string \<Rightarrow> json option" where
  "json_parse data =
     (case lex LIdle [] data of
        None \<Rightarrow> None
      | Some ts \<Rightarrow> (case parse_tokens (PS EValue []) ts of Some (PDone v) \<Rightarrow> Some v | _ \<Rightarrow> None))"

section \<open>Errors\<close>

text \<open>
  \<^verbatim>\<open>type Error struct\<close> of \<^verbatim>\<open>tedo.go\<close>. \<open>StatusCode\<close> is tagged \<^verbatim>\<open>json:"-"\<close>: it is not part
  of the JSON form.
\<close>

record Error =
  StatusCode :: int
  Code :: string
  Message :: string
  Field :: string

text \<open>
  A non-nil value of Go's interface type \<^verbatim>\<open>error\<close>, by dynamic type: a pointer to \<open>Error\<close>
  (\<open>None\<close> is the nil pointer), the wrapper that \<^verbatim>\<open>fmt.Errorf\<close> builds for a format that ends
  in \<^verbatim>\<open>%w\<close> (the text before the verb and the wrapped error), the two errors of
  \<^verbatim>\<open>encoding/json\<close>, the error of \<^verbatim>\<open>net/http\<close> for a method that is not a token (it carries the
  method, which its text quotes), and the errors of the other packages (\<^verbatim>\<open>net/http\<close>,
  \<^verbatim>\<open>net/url\<close>, \<^verbatim>\<open>io\<close>, \<^verbatim>\<open>time\<close>). The nil interface value is \<open>None\<close> of type
  \<open>go_error option\<close>.
\<close>

datatype go_error =
    APIError "Error option"
  | WrapError string go_error
  | SyntaxError
  | UnmarshalTypeError string string
  | InvalidMethod string
  | ExternalError string

text \<open>A panic of the Go runtime.\<close>

datatype panic = NilPointerDereference

text \<open>\<^verbatim>\<open>func (e *Error) Error() string\<close>\<close>

definition Error_Error :: "Error \<Rightarrow> string" where
  "Error_Error e =
     (if Field e \<noteq> [] then ''tedo: '' @ Code e @ '' - '' @ Message e @ '' (field: '' @ Field e @ '')''
      else ''tedo: '' @ Code e @ '' - '' @ Message e)"

text \<open>
  The three helpers assert the dynamic type \<^verbatim>\<open>*Error\<close> and read \<open>StatusCode\<close> through the
  pointer; on a nil pointer of that type the read panics.
\<close>

fun IsNotFound :: "go_error option \<Rightarrow> panic + bool" where
  "IsNotFound (Some (APIError (Some e))) = Inr (StatusCode e = 404)"
| "IsNotFound (Some (APIError None)) = Inl NilPointerDereference"
| "IsNotFound _ = Inr False"

fun IsValidationError :: "go_error option \<Rightarrow> panic + bool" where
  "IsValidationError (Some (APIError (Some e))) = Inr (StatusCode e = 400)"
| "IsValidationError (Some (APIError None)) = Inl NilPointerDereference"
| "IsValidationError _ = Inr False"

fun IsUnauthorized :: "go_error option \<Rightarrow> panic + bool" where
  "IsUnauthorized (Some (APIError (Some e))) = Inr (StatusCode e = 401)"
| "IsUnauthorized (Some (APIError None)) = Inl NilPointerDereference"
| "IsUnauthorized _ = Inr False"

section \<open>Decoding a document into a struct\<close>

text \<open>
  The decoder of \<^verbatim>\<open>encoding/json\<close> writes into the destination as it goes. A value of the
  wrong JSON kind is recorded (the first such error is kept) and decoding goes on with the
  next value; an error of a type's own \<^verbatim>\<open>UnmarshalJSON\<close> method stops decoding at once.
\<close>

datatype dstatus = DOk | DSaved go_error | DAbort go_error

type_synonym 'a decoder = "json \<Rightarrow> 'a \<Rightarrow> 'a \<times> dstatus"

fun then_status :: "dstatus \<Rightarrow> dstatus \<Rightarrow> dstatus" where
  "then_status _ (DAbort e) = DAbort e"
| "then_status DOk s = s"
| "then_status s _ = s"

text \<open>
  A key of the input selects the struct field whose JSON name equals it, or else equals it
  under Unicode simple case folding. \<open>foldName\<close> maps a key to the upper-case form that
  decides the match against an ASCII name: besides the ASCII letters, only U+017F (long s)
  and U+212A (Kelvin sign) fold to an ASCII letter.
\<close>

fun foldName :: "string \<Rightarrow> string" where
  "foldName [] = []"
| "foldName (c # cs) =
     (if is_lower c then chr (byte c - 32) # foldName cs
      else if c = CHR 0xC5 \<and> take 1 cs = [CHR 0xBF] then CHR ''S'' # foldName (drop 1 cs)
      else if c = CHR 0xE2 \<and> take 2 cs = [CHR 0x84, CHR 0xAA] then CHR ''K'' # foldName (drop 2 cs)
      else c # foldName cs)"

text \<open>The members of an object, in input order; a later duplicate overwrites an earlier one.\<close>

fun dec_members :: "(string \<Rightarrow> 's decoder) \<Rightarrow> (string \<times> json) list \<Rightarrow> 's \<Rightarrow> 's \<times> dstatus" where
  "dec_members f [] s = (s, DOk)"
| "dec_members f ((k, v) # ms) s =
     (case f k v s of
        (s', DAbort e) \<Rightarrow> (s', DAbort e)
      | (s', st) \<Rightarrow> (case dec_members f ms s' of (s'', st') \<Rightarrow> (s'', then_status st st')))"

text \<open>
  A struct without an \<^verbatim>\<open>UnmarshalJSON\<close> method: an object is decoded member by member,
  \<^verbatim>\<open>null\<close> leaves the struct as it is, any other value is a type error.
\<close>

definition dec_struct :: "string \<Rightarrow> (string \<Rightarrow> 's decoder) \<Rightarrow> 's decoder" where
  "dec_struct ty f j s =
     (case j of
        JObject ms \<Rightarrow> dec_members f ms s
      | JNull \<Rightarrow> (s, DOk)
      | _ \<Rightarrow> (s, DSaved (UnmarshalTypeError (json_kind j) ty)))"

definition dec_string :: "string decoder" where
  "dec_string j x =
     (case j of
        JString s \<Rightarrow> (s, DOk)
      | JNull \<Rightarrow> (x, DOk)
      | _ \<Rightarrow> (x, DSaved (UnmarshalTypeError (json_kind j) ''string'')))"

text \<open>Decoding into one field of a struct: read the field, decode, write it back.\<close>

definition into :: "('s \<Rightarrow> 'a) \<Rightarrow> ('a \<Rightarrow> 's \<Rightarrow> 's) \<Rightarrow> 'a decoder \<Rightarrow> 's decoder" where
  "into get put dec j s = (case dec j (get s) of (x, st) \<Rightarrow> (put x s, st))"

text \<open>The fields of \<open>Error\<close> by JSON name: \<^verbatim>\<open>code\<close>, \<^verbatim>\<open>message\<close>, \<^verbatim>\<open>field\<close>.\<close>

definition Error_fields :: "string \<Rightarrow> Error decoder" where
  "Error_fields k =
     (let f = foldName k in
      if f = ''CODE'' then into Code (\<lambda>x e. e\<lparr>Code := x\<rparr>) dec_string
      else if f = ''MESSAGE'' then into Message (\<lambda>x e. e\<lparr>Message := x\<rparr>) dec_string
      else if f = ''FIELD'' then into Field (\<lambda>x e. e\<lparr>Field := x\<rparr>) dec_string
      else (\<lambda>j e. (e, DOk)))"

definition dec_Error :: "Error decoder" where
  "dec_Error = dec_struct ''tedo.Error'' Error_fields"

text \<open>
  \<^verbatim>\<open>json.Unmarshal(data, v)\<close> for a non-nil pointer \<open>v\<close>: the value \<open>v\<close> points to afterwards, and
  the error returned. A syntax error leaves the destination as it was.
\<close>

definition Unmarshal :: "'a decoder \<Rightarrow> string \<Rightarrow> 'a \<Rightarrow> 'a \<times> go_error option" where
  "Unmarshal dec data v =
     (case json_parse data of
        None \<Rightarrow> (v, Some SyntaxError)
      | Some j \<Rightarrow>
          (case dec j v of
             (v', DOk) \<Rightarrow> (v', None)
           | (v', DSaved e) \<Rightarrow> (v', Some e)
           | (v', DAbort e) \<Rightarrow> (v', Some e)))"

definition Error_zero :: Error where
  "Error_zero = \<lparr>StatusCode = 0, Code = [], Message = [], Field = []\<rparr>"

text \<open>\<^verbatim>\<open>func parseError(statusCode int, body []byte) error\<close>\<close>

definition parseError :: "int \<Rightarrow> string \<Rightarrow> go_error" where
  "parseError statusCode body =
     (case Unmarshal dec_Error body Error_zero of
        (apiErr, Some err) \<Rightarrow>
          APIError (Some (\<lparr>StatusCode = 0, Code = ''unknown_error'', Message = body, Field = []\<rparr>
                           \<lparr>StatusCode := statusCode\<rparr>))
      | (apiErr, None) \<Rightarrow> APIError (Some (apiErr\<lparr>StatusCode := statusCode\<rparr>)))"

section \<open>Library functions taken as parameters\<close>

text \<open>
  A point in time, \<^verbatim>\<open>time.Time\<close>; the zero value is \<open>Time 0\<close>.
\<close>

datatype Time = Time int

text \<open>
  Two functions of the standard library are parameters of the model. \<^verbatim>\<open>url.Parse\<close> returns an
  error or the parsed URL, which stands here as the text \<^verbatim>\<open>net/http\<close> sends for it (with the
  escapes the parser puts in). \<^verbatim>\<open>Time.UnmarshalJSON\<close> is the decoder of a \<^verbatim>\<open>time.Time\<close>, in the
  form of the decoders above: what it accepts, and whether a value it refuses stops the
  decoding or is recorded as a type error, is the library's and differs between its versions.
\<close>

record stdlib =
  url_Parse :: "string \<Rightarrow> go_error + string"
  time_UnmarshalJSON :: "json \<Rightarrow> Time \<Rightarrow> Time \<times> dstatus"

section \<open>The transport core\<close>

subsection \<open>Requests, responses and the client\<close>

text \<open>
  A request as \<^verbatim>\<open>net/http\<close> sends it. The URL is the parsed one. The body is the JSON
  document that \<^verbatim>\<open>json.Marshal\<close> produced (its rendering as bytes is not looked at by the
  client); the header is the list of the names set, each with its value.
\<close>

record http_request =
  Method :: string
  URL :: string
  Header :: "(string \<times> string) list"
  Body :: "json option"

text \<open>
  A response: its status code, and what \<^verbatim>\<open>io.ReadAll(resp.Body)\<close> returns, the bytes of the
  body or an error.
\<close>

record http_response =
  resp_StatusCode :: int
  resp_Body :: "go_error + string"

text \<open>
  \<^verbatim>\<open>http.Client\<close>: the timeout in nanoseconds, and the transport behind \<^verbatim>\<open>Do\<close>. The transport
  stands for the network and the server: it answers a request, given the requests sent
  before it, with a response or with an error (connection failure, timeout, cancelled
  context).
\<close>

record http_Client =
  Timeout :: int
  Transport :: "http_request list \<Rightarrow> http_request \<Rightarrow> go_error + http_response"

text \<open>
  \<^verbatim>\<open>type Client struct\<close>. The field \<^verbatim>\<open>Billing\<close> holds a \<^verbatim>\<open>BillingService\<close> that points back to
  the client; the methods of the service take the client from the state instead.
\<close>

record Client =
  apiKey :: string
  baseURL :: string
  httpClient :: http_Client

text \<open>The state a call runs in: the client, and the requests handed to the transport so far.\<close>

record world =
  client :: Client
  sent :: "http_request list"

definition defaultBaseURL :: string where
  "defaultBaseURL = ''https://api.tedo.ai/v1''"

definition defaultTimeout :: int where
  "defaultTimeout = 30 * 1000000000"

text \<open>\<^verbatim>\<open>NewClient\<close>, with the default transport of \<^verbatim>\<open>net/http\<close> as a parameter.\<close>

definition NewClient :: "(http_request list \<Rightarrow> http_request \<Rightarrow> go_error + http_response) \<Rightarrow> string \<Rightarrow> Client" where
  "NewClient net key =
     \<lparr>apiKey = key, baseURL = defaultBaseURL,
      httpClient = \<lparr>Timeout = defaultTimeout, Transport = net\<rparr>\<rparr>"

definition WithBaseURL :: "string \<Rightarrow> Client \<Rightarrow> Client" where
  "WithBaseURL url c = c\<lparr>baseURL := url\<rparr>"

definition WithHTTPClient :: "http_Client \<Rightarrow> Client \<Rightarrow> Client" where
  "WithHTTPClient hc c = c\<lparr>httpClient := hc\<rparr>"

subsection \<open>Building the request\<close>

text \<open>The token characters of RFC 7230, which a method name consists of.\<close>

definition is_token_char :: "char \<Rightarrow> bool" where
  "is_token_char c = (is_digit c \<or> is_lower c \<or> is_upper c \<or> c \<in> set ''!#$%&*+-.^_`|~'' \<or> c = CHR 0x27)"

definition validMethod :: "string \<Rightarrow> bool" where
  "validMethod m = (m \<noteq> [] \<and> list_all is_token_char m)"

text \<open>
  \<^verbatim>\<open>http.NewRequestWithContext\<close>, for a non-nil context: an empty method means GET, the method
  must be a token, and the URL is parsed by \<^verbatim>\<open>url.Parse\<close>, which is the parameter \<open>parse\<close>. The
  request carries the parsed URL.
\<close>

definition NewRequestWithContext ::
  "(string \<Rightarrow> go_error + string) \<Rightarrow> string \<Rightarrow> string \<Rightarrow> json option \<Rightarrow> go_error + http_request" where
  "NewRequestWithContext parse method url body =
     (let m = (if method = [] then ''GET'' else method) in
      if \<not> validMethod m then Inl (InvalidMethod m)
      else case parse url of
             Inl err \<Rightarrow> Inl err
           | Inr u \<Rightarrow> Inr \<lparr>Method = m, URL = u, Header = [], Body = body\<rparr>)"

text \<open>\<^verbatim>\<open>req.Header.Set\<close>: the value replaces what was set under the name.\<close>

definition Header_Set :: "string \<Rightarrow> string \<Rightarrow> http_request \<Rightarrow> http_request" where
  "Header_Set k v req = req\<lparr>Header := filter (\<lambda>kv. fst kv \<noteq> k) (Header req) @ [(k, v)]\<rparr>"

subsection \<open>request\<close>

text \<open>
  \<^verbatim>\<open>func (c *Client) request(ctx, method, path string, body, result any) error\<close>.

  The two arguments of interface type carry their dynamic type, which \<^verbatim>\<open>encoding/json\<close>
  inspects: \<open>body\<close> comes with the encoder of its type (\<open>marshal\<close>), \<open>result\<close> with the decoder
  of the type it points to (\<open>dec\<close>). \<open>None\<close> is the nil interface value. The function returns
  what \<open>result\<close> points to after the call and the error, together with the new state. The
  context is taken to be non-nil; a cancelled context or a deadline shows as an error of the
  transport.

  The body of the function is given in the four steps it consists of.
\<close>

text \<open>Lines 67 to 74: the body, if there is one, is marshalled.\<close>

definition request_body :: "('b \<Rightarrow> go_error + json) \<Rightarrow> 'b option \<Rightarrow> go_error + json option" where
  "request_body marshal body =
     (case body of
        None \<Rightarrow> Inr None
      | Some b \<Rightarrow> (case marshal b of Inl err \<Rightarrow> Inl err | Inr jsonBody \<Rightarrow> Inr (Some jsonBody)))"

text \<open>Lines 81 to 83: the three headers.\<close>

definition request_headers :: "Client \<Rightarrow> http_request \<Rightarrow> http_request" where
  "request_headers c req =
     Header_Set ''Accept'' ''application/json''
       (Header_Set ''Content-Type'' ''application/json''
         (Header_Set ''Authorization'' (''Bearer '' @ apiKey c) req))"

text \<open>Lines 97 to 109: the status code decides between the error and the decoded result.\<close>

definition request_result :: "'r decoder \<Rightarrow> int \<Rightarrow> string \<Rightarrow> 'r option \<Rightarrow> 'r option \<times> go_error option" where
  "request_result dec statusCode respBody result =
     (if statusCode \<ge> 400 then (result, Some (parseError statusCode respBody))
      else case result of
             None \<Rightarrow> (result, None)
           | Some r \<Rightarrow>
               if length respBody > 0 then
                 (case Unmarshal dec respBody r of
                    (r', Some err) \<Rightarrow> (Some r', Some (WrapError ''decode response: '' err))
                  | (r', None) \<Rightarrow> (Some r', None))
               else (result, None))"

text \<open>Lines 85 to 95: the request goes to the transport, and the body of the response is read.\<close>

definition request_do ::
  "'r decoder \<Rightarrow> http_request \<Rightarrow> 'r option \<Rightarrow> world \<Rightarrow> ('r option \<times> go_error option) \<times> world" where
  "request_do dec req result w =
     (case Transport (httpClient (client w)) (sent w) req of
        Inl err \<Rightarrow> ((result, Some (WrapError ''do request: '' err)), w\<lparr>sent := sent w @ [req]\<rparr>)
      | Inr resp \<Rightarrow>
          (case resp_Body resp of
             Inl err \<Rightarrow> ((result, Some (WrapError ''read response: '' err)), w\<lparr>sent := sent w @ [req]\<rparr>)
           | Inr respBody \<Rightarrow>
               (request_result dec (resp_StatusCode resp) respBody result, w\<lparr>sent := sent w @ [req]\<rparr>)))"

definition request ::
  "stdlib \<Rightarrow> ('b \<Rightarrow> go_error + json) \<Rightarrow> 'r decoder \<Rightarrow>
   string \<Rightarrow> string \<Rightarrow> 'b option \<Rightarrow> 'r option \<Rightarrow> world \<Rightarrow> ('r option \<times> go_error option) \<times> world" where
  "request lib marshal dec method path body result w =
     (case request_body marshal body of
        Inl err \<Rightarrow> ((result, Some (WrapError ''marshal request body: '' err)), w)
      | Inr bodyReader \<Rightarrow>
          (case NewRequestWithContext (url_Parse lib) method (baseURL (client w) @ path) bodyReader of
             Inl err \<Rightarrow> ((result, Some (WrapError ''create request: '' err)), w)
           | Inr req \<Rightarrow> request_do dec (request_headers (client w) req) result w))"

section \<open>More of \<^verbatim>\<open>encoding/json\<close> and \<^verbatim>\<open>fmt\<close>\<close>

subsection \<open>Integers in decimal\<close>

fun digits :: "nat \<Rightarrow> string" where
  "digits n = (if n < 10 then [chr (48 + n)] else digits (n div 10) @ [chr (48 + n mod 10)])"

declare digits.simps [simp del]

text \<open>The verb \<^verbatim>\<open>%d\<close> of \<^verbatim>\<open>fmt.Sprintf\<close>, and \<^verbatim>\<open>json.Marshal\<close> of an \<^verbatim>\<open>int\<close>.\<close>

definition itoa :: "int \<Rightarrow> string" where
  "itoa i = (if i < 0 then CHR ''-'' # digits (nat (- i)) else digits (nat i))"

definition digits_value :: "string \<Rightarrow> nat" where
  "digits_value ds = foldl (\<lambda>n d. 10 * n + (byte d - 48)) 0 ds"

text \<open>
  \<^verbatim>\<open>strconv.ParseInt(s, 10, 64)\<close> on a JSON number literal: the literal must be an integer
  that fits 64 bits.
\<close>

definition parse_int64 :: "string \<Rightarrow> int option" where
  "parse_int64 s =
     (let neg = (take 1 s = ''-'');
          ds = (if neg then drop 1 s else s);
          n = (if neg then - int (digits_value ds) else int (digits_value ds))
      in if ds \<noteq> [] \<and> list_all is_digit ds \<and> - (2 ^ 63) \<le> n \<and> n < 2 ^ 63 then Some n else None)"

subsection \<open>Decoders of the field types\<close>

definition dec_int :: "int decoder" where
  "dec_int j x =
     (case j of
        JNumber s \<Rightarrow>
          (case parse_int64 s of
             Some n \<Rightarrow> (n, DOk)
           | None \<Rightarrow> (x, DSaved (UnmarshalTypeError (''number '' @ s) ''int'')))
      | JNull \<Rightarrow> (x, DOk)
      | _ \<Rightarrow> (x, DSaved (UnmarshalTypeError (json_kind j) ''int'')))"

text \<open>A pointer field: \<^verbatim>\<open>null\<close> sets it to nil, another value is decoded into what it points to.\<close>

definition dec_ptr :: "'a \<Rightarrow> 'a decoder \<Rightarrow> 'a option decoder" where
  "dec_ptr zero dec j p =
     (case j of
        JNull \<Rightarrow> (None, DOk)
      | _ \<Rightarrow> (case dec j (case p of None \<Rightarrow> zero | Some x \<Rightarrow> x) of (x, st) \<Rightarrow> (Some x, st)))"

text \<open>
  A Go map from strings to strings: \<open>None\<close> is the nil map, \<open>Some kvs\<close> a map with the entries
  \<open>kvs\<close>, whose keys are distinct.
\<close>

type_synonym go_map = "(string \<times> string) list option"

definition map_store :: "string \<Rightarrow> string \<Rightarrow> (string \<times> string) list \<Rightarrow> (string \<times> string) list" where
  "map_store k v kvs = filter (\<lambda>kv. fst kv \<noteq> k) kvs @ [(k, v)]"

fun dec_entries :: "(string \<times> json) list \<Rightarrow> (string \<times> string) list \<Rightarrow> (string \<times> string) list \<times> dstatus" where
  "dec_entries [] kvs = (kvs, DOk)"
| "dec_entries ((k, v) # ms) kvs =
     (case dec_string v [] of
        (x, st) \<Rightarrow> (case dec_entries ms (map_store k x kvs) of (kvs', st') \<Rightarrow> (kvs', then_status st st')))"

definition dec_map :: "go_map decoder" where
  "dec_map j m =
     (case j of
        JNull \<Rightarrow> (None, DOk)
      | JObject ms \<Rightarrow>
          (case dec_entries ms (case m of None \<Rightarrow> [] | Some kvs \<Rightarrow> kvs) of (kvs', st) \<Rightarrow> (Some kvs', st))
      | _ \<Rightarrow> (m, DSaved (UnmarshalTypeError (json_kind j) ''map[string]string'')))"

text \<open>
  A slice: the elements, and behind them the elements that the backing array still holds
  beyond the length of the slice (what lies further back is zero). The nil slice has neither.
\<close>

record 'a slice =
  elems :: "'a list"
  spare :: "'a list"

definition nil_slice :: "'a slice" where
  "nil_slice = \<lparr>elems = [], spare = []\<rparr>"

text \<open>
  The elements of an array are decoded in turn, each into the element the backing array
  holds at its index, or into a zero element where the backing array ends. The result is the
  elements decoded, what is left of the backing array, and the status.
\<close>

fun dec_elems :: "'a \<Rightarrow> 'a decoder \<Rightarrow> json list \<Rightarrow> 'a list \<Rightarrow> 'a list \<times> 'a list \<times> dstatus" where
  "dec_elems zero dec [] bs = ([], bs, DOk)"
| "dec_elems zero dec (j # js) bs =
     (case dec j (case bs of [] \<Rightarrow> zero | b # _ \<Rightarrow> b) of
        (x, DAbort e) \<Rightarrow> ([x], tl bs, DAbort e)
      | (x, st) \<Rightarrow>
          (case dec_elems zero dec js (tl bs) of (xs, rest, st') \<Rightarrow> (x # xs, rest, then_status st st')))"

text \<open>
  Decoding into a slice: \<^verbatim>\<open>null\<close> makes it nil; an array is decoded into the elements in place,
  the slice is cut or grown to the length of the array, and the empty array gives a new
  empty slice. When an element stops the decoding, the slice keeps the length it has
  reached.
\<close>

definition dec_slice :: "string \<Rightarrow> 'a \<Rightarrow> 'a decoder \<Rightarrow> 'a slice decoder" where
  "dec_slice ty zero dec j s =
     (case j of
        JNull \<Rightarrow> (nil_slice, DOk)
      | JArray js \<Rightarrow>
          (case dec_elems zero dec js (elems s @ spare s) of
             (xs, rest, DAbort e) \<Rightarrow>
               (\<lparr>elems = xs @ take (length (elems s) - length xs) rest,
                 spare = drop (length (elems s) - length xs) rest\<rparr>, DAbort e)
           | (xs, rest, st) \<Rightarrow>
               (if js = [] then nil_slice else \<lparr>elems = xs, spare = rest\<rparr>, st))
      | _ \<Rightarrow> (s, DSaved (UnmarshalTypeError (json_kind j) ty)))"

subsection \<open>Encoders of the field types\<close>

text \<open>\<^verbatim>\<open>json.Marshal\<close> writes a string as valid UTF-8: a byte that is not part of a well-formed
  encoding becomes U+FFFD.\<close>

fun toValidUTF8 :: "string \<Rightarrow> string" where
  "toValidUTF8 [] = []"
| "toValidUTF8 (c # r) =
     (if byte c < 128 then c # toValidUTF8 r
      else case utf8_width c r of
             None \<Rightarrow> utf8_encode 65533 @ toValidUTF8 r
           | Some n \<Rightarrow> c # take (n - 1) r @ toValidUTF8 (drop (n - 1) r))"

declare toValidUTF8.simps [simp del]

definition enc_string :: "string \<Rightarrow> json" where
  "enc_string s = JString (toValidUTF8 s)"

definition enc_int :: "int \<Rightarrow> json" where
  "enc_int i = JNumber (itoa i)"

text \<open>A map is written as an object with the keys in byte order.\<close>

definition enc_map :: "(string \<times> string) list \<Rightarrow> json" where
  "enc_map kvs = JObject (map (\<lambda>kv. (toValidUTF8 (fst kv), enc_string (snd kv))) (sort_key fst kvs))"

text \<open>
  One field of a struct in the output object. Without \<^verbatim>\<open>omitempty\<close> the field is always
  written. With \<^verbatim>\<open>omitempty\<close> it is left out when its value is empty: the empty string, zero,
  \<^verbatim>\<open>false\<close>, a nil pointer, a map without entries.
\<close>

definition field_string :: "string \<Rightarrow> string \<Rightarrow> (string \<times> json) list" where
  "field_string name s = [(name, enc_string s)]"

definition omitempty_string :: "string \<Rightarrow> string \<Rightarrow> (string \<times> json) list" where
  "omitempty_string name s = (if s = [] then [] else [(name, enc_string s)])"

definition omitempty_int :: "string \<Rightarrow> int \<Rightarrow> (string \<times> json) list" where
  "omitempty_int name i = (if i = 0 then [] else [(name, enc_int i)])"

definition omitempty_ptr :: "string \<Rightarrow> ('a \<Rightarrow> json) \<Rightarrow> 'a option \<Rightarrow> (string \<times> json) list" where
  "omitempty_ptr name enc p = (case p of None \<Rightarrow> [] | Some x \<Rightarrow> [(name, enc x)])"

definition omitempty_map :: "string \<Rightarrow> go_map \<Rightarrow> (string \<times> json) list" where
  "omitempty_map name m =
     (case m of None \<Rightarrow> [] | Some kvs \<Rightarrow> if kvs = [] then [] else [(name, enc_map kvs)])"

text \<open>\<^verbatim>\<open>json.Marshal\<close> of a pointer to a struct: \<^verbatim>\<open>null\<close> for the nil pointer.\<close>

definition Marshal_ptr :: "('a \<Rightarrow> json) \<Rightarrow> 'a option \<Rightarrow> go_error + json" where
  "Marshal_ptr enc p = (case p of None \<Rightarrow> Inr JNull | Some x \<Rightarrow> Inr (enc x))"

section \<open>The billing service\<close>

subsection \<open>Structs and their JSON forms\<close>

text \<open>
  Field names carry the name of their struct, since several structs have fields of the same
  name (\<^verbatim>\<open>ID\<close>, \<^verbatim>\<open>Name\<close>, \<^verbatim>\<open>Metadata\<close>).
\<close>

definition GuestPlanKey :: string where "GuestPlanKey = ''guest''"
definition GuestPriceKey :: string where "GuestPriceKey = ''guest_monthly_EUR''"
definition FreePlanKey :: string where "FreePlanKey = ''free''"
definition FreePriceKey :: string where "FreePriceKey = ''free_monthly_EUR''"
definition BasicPlanKey :: string where "BasicPlanKey = ''basic''"
definition BasicPriceKey :: string where "BasicPriceKey = ''basic_monthly_EUR''"

record Subscription =
  Subscription_ID :: string
  Subscription_CustomerID :: string
  Subscription_PriceID :: string
  Subscription_Status :: string
  Subscription_Quantity :: int
  Subscription_StartedAt :: Time
  Subscription_CanceledAt :: "Time option"
  Subscription_Metadata :: go_map
  Subscription_CreatedAt :: Time

definition Subscription_zero :: Subscription where
  "Subscription_zero =
     \<lparr>Subscription_ID = [], Subscription_CustomerID = [], Subscription_PriceID = [],
      Subscription_Status = [], Subscription_Quantity = 0, Subscription_StartedAt = Time 0,
      Subscription_CanceledAt = None, Subscription_Metadata = None, Subscription_CreatedAt = Time 0\<rparr>"

definition Subscription_fields :: "stdlib \<Rightarrow> string \<Rightarrow> Subscription decoder" where
  "Subscription_fields lib k =
     (let f = foldName k in
      if f = ''ID'' then into Subscription_ID (\<lambda>x r. r\<lparr>Subscription_ID := x\<rparr>) dec_string
      else if f = ''CUSTOMER_ID'' then into Subscription_CustomerID (\<lambda>x r. r\<lparr>Subscription_CustomerID := x\<rparr>) dec_string
      else if f = ''PRICE_ID'' then into Subscription_PriceID (\<lambda>x r. r\<lparr>Subscription_PriceID := x\<rparr>) dec_string
      else if f = ''STATUS'' then into Subscription_Status (\<lambda>x r. r\<lparr>Subscription_Status := x\<rparr>) dec_string
      else if f = ''QUANTITY'' then into Subscription_Quantity (\<lambda>x r. r\<lparr>Subscription_Quantity := x\<rparr>) dec_int
      else if f = ''STARTED_AT'' then into Subscription_StartedAt (\<lambda>x r. r\<lparr>Subscription_StartedAt := x\<rparr>) (time_UnmarshalJSON lib)
      else if f = ''CANCELED_AT'' then
        into Subscription_CanceledAt (\<lambda>x r. r\<lparr>Subscription_CanceledAt := x\<rparr>) (dec_ptr (Time 0) (time_UnmarshalJSON lib))
      else if f = ''METADATA'' then into Subscription_Metadata (\<lambda>x r. r\<lparr>Subscription_Metadata := x\<rparr>) dec_map
      else if f = ''CREATED_AT'' then into Subscription_CreatedAt (\<lambda>x r. r\<lparr>Subscription_CreatedAt := x\<rparr>) (time_UnmarshalJSON lib)
      else (\<lambda>j r. (r, DOk)))"

definition dec_Subscription :: "stdlib \<Rightarrow> Subscription decoder" where
  "dec_Subscription lib = dec_struct ''tedo.Subscription'' (Subscription_fields lib)"

record Customer =
  Customer_ID :: string
  Customer_Email :: string
  Customer_Name :: string
  Customer_ExternalID :: string
  Customer_Metadata :: go_map
  Customer_Subscriptions :: "Subscription slice"
  Customer_CreatedAt :: Time
  Customer_UpdatedAt :: Time

definition Customer_zero :: Customer where
  "Customer_zero =
     \<lparr>Customer_ID = [], Customer_Email = [], Customer_Name = [], Customer_ExternalID = [],
      Customer_Metadata = None, Customer_Subscriptions = nil_slice, Customer_CreatedAt = Time 0,
      Customer_UpdatedAt = Time 0\<rparr>"

definition Customer_fields :: "stdlib \<Rightarrow> string \<Rightarrow> Customer decoder" where
  "Customer_fields lib k =
     (let f = foldName k in
      if f = ''ID'' then into Customer_ID (\<lambda>x r. r\<lparr>Customer_ID := x\<rparr>) dec_string
      else if f = ''EMAIL'' then into Customer_Email (\<lambda>x r. r\<lparr>Customer_Email := x\<rparr>) dec_string
      else if f = ''NAME'' then into Customer_Name (\<lambda>x r. r\<lparr>Customer_Name := x\<rparr>) dec_string
      else if f = ''EXTERNAL_ID'' then into Customer_ExternalID (\<lambda>x r. r\<lparr>Customer_ExternalID := x\<rparr>) dec_string
      else if f = ''METADATA'' then into Customer_Metadata (\<lambda>x r. r\<lparr>Customer_Metadata := x\<rparr>) dec_map
      else if f = ''SUBSCRIPTIONS'' then
        into Customer_Subscriptions (\<lambda>x r. r\<lparr>Customer_Subscriptions := x\<rparr>)
          (dec_slice ''[]tedo.Subscription'' Subscription_zero (dec_Subscription lib))
      else if f = ''CREATED_AT'' then into Customer_CreatedAt (\<lambda>x r. r\<lparr>Customer_CreatedAt := x\<rparr>) (time_UnmarshalJSON lib)
      else if f = ''UPDATED_AT'' then into Customer_UpdatedAt (\<lambda>x r. r\<lparr>Customer_UpdatedAt := x\<rparr>) (time_UnmarshalJSON lib)
      else (\<lambda>j r. (r, DOk)))"

definition dec_Customer :: "stdlib \<Rightarrow> Customer decoder" where
  "dec_Customer lib = dec_struct ''tedo.Customer'' (Customer_fields lib)"

record CustomerList =
  CustomerList_Customers :: "Customer slice"
  CustomerList_Total :: int
  CustomerList_NextCursor :: string

definition CustomerList_zero :: CustomerList where
  "CustomerList_zero =
     \<lparr>CustomerList_Customers = nil_slice, CustomerList_Total = 0, CustomerList_NextCursor = []\<rparr>"

definition CustomerList_fields :: "stdlib \<Rightarrow> string \<Rightarrow> CustomerList decoder" where
  "CustomerList_fields lib k =
     (let f = foldName k in
      if f = ''CUSTOMERS'' then
        into CustomerList_Customers (\<lambda>x r. r\<lparr>CustomerList_Customers := x\<rparr>)
          (dec_slice ''[]tedo.Customer'' Customer_zero (dec_Customer lib))
      else if f = ''TOTAL'' then into CustomerList_Total (\<lambda>x r. r\<lparr>CustomerList_Total := x\<rparr>) dec_int
      else if f = ''NEXT_CURSOR'' then into CustomerList_NextCursor (\<lambda>x r. r\<lparr>CustomerList_NextCursor := x\<rparr>) dec_string
      else (\<lambda>j r. (r, DOk)))"

definition dec_CustomerList :: "stdlib \<Rightarrow> CustomerList decoder" where
  "dec_CustomerList lib = dec_struct ''tedo.CustomerList'' (CustomerList_fields lib)"

record CreateCustomerParams =
  CreateCustomerParams_Email :: string
  CreateCustomerParams_Name :: string
  CreateCustomerParams_ExternalID :: string
  CreateCustomerParams_Metadata :: go_map

definition enc_CreateCustomerParams :: "CreateCustomerParams \<Rightarrow> json" where
  "enc_CreateCustomerParams p =
     JObject (field_string ''email'' (CreateCustomerParams_Email p)
            @ omitempty_string ''name'' (CreateCustomerParams_Name p)
            @ omitempty_string ''external_id'' (CreateCustomerParams_ExternalID p)
            @ omitempty_map ''metadata'' (CreateCustomerParams_Metadata p))"

record ListCustomersParams =
  ListCustomersParams_Limit :: int
  ListCustomersParams_Cursor :: string

record UpdateCustomerParams =
  UpdateCustomerParams_Email :: "string option"
  UpdateCustomerParams_Name :: "string option"
  UpdateCustomerParams_ExternalID :: "string option"
  UpdateCustomerParams_Metadata :: go_map

definition enc_UpdateCustomerParams :: "UpdateCustomerParams \<Rightarrow> json" where
  "enc_UpdateCustomerParams p =
     JObject (omitempty_ptr ''email'' enc_string (UpdateCustomerParams_Email p)
            @ omitempty_ptr ''name'' enc_string (UpdateCustomerParams_Name p)
            @ omitempty_ptr ''external_id'' enc_string (UpdateCustomerParams_ExternalID p)
            @ omitempty_map ''metadata'' (UpdateCustomerParams_Metadata p))"

record UpdatePlanParams =
  UpdatePlanParams_Key :: "string option"
  UpdatePlanParams_Name :: "string option"
  UpdatePlanParams_Description :: "string option"
  UpdatePlanParams_IsActive :: "bool option"

definition enc_UpdatePlanParams :: "UpdatePlanParams \<Rightarrow> json" where
  "enc_UpdatePlanParams p =
     JObject (omitempty_ptr ''key'' enc_string (UpdatePlanParams_Key p)
            @ omitempty_ptr ''name'' enc_string (UpdatePlanParams_Name p)
            @ omitempty_ptr ''description'' enc_string (UpdatePlanParams_Description p)
            @ omitempty_ptr ''is_active'' JBool (UpdatePlanParams_IsActive p))"

record CreateSubscriptionParams =
  CreateSubscriptionParams_CustomerID :: string
  CreateSubscriptionParams_PriceID :: string
  CreateSubscriptionParams_PlanKey :: string
  CreateSubscriptionParams_PriceKey :: string
  CreateSubscriptionParams_Quantity :: int
  CreateSubscriptionParams_Metadata :: go_map

definition enc_CreateSubscriptionParams :: "CreateSubscriptionParams \<Rightarrow> json" where
  "enc_CreateSubscriptionParams p =
     JObject (field_string ''customer_id'' (CreateSubscriptionParams_CustomerID p)
            @ omitempty_string ''price_id'' (CreateSubscriptionParams_PriceID p)
            @ omitempty_string ''plan_key'' (CreateSubscriptionParams_PlanKey p)
            @ omitempty_string ''price_key'' (CreateSubscriptionParams_PriceKey p)
            @ omitempty_int ''quantity'' (CreateSubscriptionParams_Quantity p)
            @ omitempty_map ''metadata'' (CreateSubscriptionParams_Metadata p))"

subsection \<open>Accessors\<close>

text \<open>
  A method that returns \<^verbatim>\<open>(*T, error)\<close> returns either \<^verbatim>\<open>nil, err\<close> or \<^verbatim>\<open>&value, nil\<close>: its
  model returns \<open>Inl err\<close> or \<open>Inr value\<close>, and the new state. \<open>local\<close> is the local variable
  that \<^verbatim>\<open>request\<close> decodes into.
\<close>

definition returned :: "'r \<Rightarrow> ('r option \<times> go_error option) \<times> world \<Rightarrow> (go_error + 'r) \<times> world" where
  "returned local out =
     (case out of
        ((r, Some err), w') \<Rightarrow> (Inl err, w')
      | ((r, None), w') \<Rightarrow> (Inr (case r of None \<Rightarrow> local | Some x \<Rightarrow> x), w'))"

text \<open>\<^verbatim>\<open>CreateCustomer\<close>: POST /billing/v1/customers\<close>

definition CreateCustomer :: "stdlib \<Rightarrow> CreateCustomerParams option \<Rightarrow> world \<Rightarrow> (go_error + Customer) \<times> world" where
  "CreateCustomer lib params w =
     returned Customer_zero
       (request lib (Marshal_ptr enc_CreateCustomerParams) (dec_Customer lib)
          ''POST'' ''/billing/v1/customers'' (Some params) (Some Customer_zero) w)"

text \<open>\<^verbatim>\<open>CreateCustomerForUser\<close> returns \<^verbatim>\<open>(string, error)\<close>: both components are kept.\<close>

definition CreateCustomerForUser ::
  "stdlib \<Rightarrow> int \<Rightarrow> string \<Rightarrow> string \<Rightarrow> world \<Rightarrow> (string \<times> go_error option) \<times> world" where
  "CreateCustomerForUser lib userID email name w =
     (case CreateCustomer lib
             (Some \<lparr>CreateCustomerParams_Email = email, CreateCustomerParams_Name = name,
                    CreateCustomerParams_ExternalID = ''user:'' @ itoa userID,
                    CreateCustomerParams_Metadata = None\<rparr>) w of
        (Inl err, w') \<Rightarrow> (([], Some (WrapError ''failed to create billing customer for user: '' err)), w')
      | (Inr customer, w') \<Rightarrow> ((Customer_ID customer, None), w'))"

definition no_body :: "unit \<Rightarrow> go_error + json" where
  "no_body u = Inr JNull"

text \<open>\<^verbatim>\<open>GetCustomer\<close>: GET /billing/v1/customers/{id}, without a body.\<close>

definition GetCustomer :: "stdlib \<Rightarrow> string \<Rightarrow> world \<Rightarrow> (go_error + Customer) \<times> world" where
  "GetCustomer lib id' w =
     returned Customer_zero
       (request lib no_body (dec_Customer lib)
          ''GET'' (''/billing/v1/customers/'' @ id') None (Some Customer_zero) w)"

text \<open>\<^verbatim>\<open>ListCustomers\<close>: the path, then GET. A nil \<^verbatim>\<open>params\<close> is \<open>None\<close>.\<close>

definition ListCustomers_path :: "ListCustomersParams option \<Rightarrow> string" where
  "ListCustomers_path params =
     (let path = ''/billing/v1/customers'' in
      case params of
        None \<Rightarrow> path
      | Some ps \<Rightarrow>
          (let query = [];
               query = (if ListCustomersParams_Limit ps > 0
                        then query @ ''limit='' @ itoa (ListCustomersParams_Limit ps) else query);
               query = (if ListCustomersParams_Cursor ps \<noteq> []
                        then (if query \<noteq> [] then query @ ''&'' else query)
                               @ ''cursor='' @ ListCustomersParams_Cursor ps
                        else query)
           in if query \<noteq> [] then path @ ''?'' @ query else path))"

definition ListCustomers :: "stdlib \<Rightarrow> ListCustomersParams option \<Rightarrow> world \<Rightarrow> (go_error + CustomerList) \<times> world" where
  "ListCustomers lib params w =
     returned CustomerList_zero
       (request lib no_body (dec_CustomerList lib)
          ''GET'' (ListCustomers_path params) None (Some CustomerList_zero) w)"

text \<open>\<^verbatim>\<open>UpdateCustomer\<close>: PATCH /billing/v1/customers/{id}\<close>

definition UpdateCustomer ::
  "stdlib \<Rightarrow> string \<Rightarrow> UpdateCustomerParams option \<Rightarrow> world \<Rightarrow> (go_error + Customer) \<times> world" where
  "UpdateCustomer lib id' params w =
     returned Customer_zero
       (request lib (Marshal_ptr enc_UpdateCustomerParams) (dec_Customer lib)
          ''PATCH'' (''/billing/v1/customers/'' @ id') (Some params) (Some Customer_zero) w)"

text \<open>\<^verbatim>\<open>CreateSubscription\<close>: POST /billing/v1/subscriptions\<close>

definition CreateSubscription ::
  "stdlib \<Rightarrow> CreateSubscriptionParams option \<Rightarrow> world \<Rightarrow> (go_error + Subscription) \<times> world" where
  "CreateSubscription lib params w =
     returned Subscription_zero
       (request lib (Marshal_ptr enc_CreateSubscriptionParams) (dec_Subscription lib)
          ''POST'' ''/billing/v1/subscriptions'' (Some params) (Some Subscription_zero) w)"

definition createSubscriptionWithPlan ::
  "stdlib \<Rightarrow> string \<Rightarrow> string \<Rightarrow> string \<Rightarrow> world \<Rightarrow> (string \<times> go_error option) \<times> world" where
  "createSubscriptionWithPlan lib customerID planKey priceKey w =
     (case CreateSubscription lib
             (Some \<lparr>CreateSubscriptionParams_CustomerID = customerID,
                    CreateSubscriptionParams_PriceID = [],
                    CreateSubscriptionParams_PlanKey = planKey,
                    CreateSubscriptionParams_PriceKey = priceKey,
                    CreateSubscriptionParams_Quantity = 0,
                    CreateSubscriptionParams_Metadata = None\<rparr>) w of
        (Inl err, w') \<Rightarrow> (([], Some (WrapError ''failed to create subscription: '' err)), w')
      | (Inr subscription, w') \<Rightarrow> ((Subscription_ID subscription, None), w'))"

definition CreateSubscriptionForWorkspace ::
  "stdlib \<Rightarrow> string \<Rightarrow> string \<Rightarrow> world \<Rightarrow> (string \<times> go_error option) \<times> world" where
  "CreateSubscriptionForWorkspace lib customerID workspaceID w =
     createSubscriptionWithPlan lib customerID FreePlanKey FreePriceKey w"

definition CreateSubscriptionForGuestWorkspace ::
  "stdlib \<Rightarrow> string \<Rightarrow> string \<Rightarrow> world \<Rightarrow> (string \<times> go_error option) \<times> world" where
  "CreateSubscriptionForGuestWorkspace lib customerID workspaceID w =
     createSubscriptionWithPlan lib customerID GuestPlanKey GuestPriceKey w"

definition CreateSubscriptionForBasicPlan ::
  "stdlib \<Rightarrow> string \<Rightarrow> world \<Rightarrow> (string \<times> go_error option) \<times> world" where
  "CreateSubscriptionForBasicPlan lib customerID w =
     createSubscriptionWithPlan lib customerID BasicPlanKey BasicPriceKey w"

section \<open>The specification's reading of a body and of a query string\<close>

text \<open>
  The text a JSON object gives for a name: the value of the last member that has the name
  (up to case) and is a string, and the empty string when there is none.
\<close>

definition member_texts :: "string \<Rightarrow> (string \<times> json) list \<Rightarrow> string list" where
  "member_texts name ms =
     concat (map (\<lambda>kv. case snd kv of JString s \<Rightarrow> if foldName (fst kv) = name then [s] else [] | _ \<Rightarrow> []) ms)"

definition body_field :: "string \<Rightarrow> (string \<times> json) list \<Rightarrow> string" where
  "body_field name ms = (if member_texts name ms = [] then [] else last (member_texts name ms))"

text \<open>
  The query string as the specification describes it: the parameters that are present, in
  the order limit, cursor, joined by an ampersand and prefixed by a question mark.
\<close>

fun join_amp :: "string list \<Rightarrow> string" where
  "join_amp [] = []"
| "join_amp [x] = x"
| "join_amp (x # y # ys) = x @ ''&'' @ join_amp (y # ys)"

definition query_parts :: "ListCustomersParams \<Rightarrow> string list" where
  "query_parts ps =
     (if ListCustomersParams_Limit ps > 0 then [''limit='' @ itoa (ListCustomersParams_Limit ps)] else [])
     @ (if ListCustomersParams_Cursor ps \<noteq> [] then [''cursor='' @ ListCustomersParams_Cursor ps] else [])"

definition spec_customers_path :: "ListCustomersParams option \<Rightarrow> string" where
  "spec_customers_path params =
     ''/billing/v1/customers'' @
     (case params of
        None \<Rightarrow> []
      | Some ps \<Rightarrow> if query_parts ps = [] then [] else ''?'' @ join_amp (query_parts ps))"













section \<open>Example runs\<close>

text \<open>
  The examples run against a transport that answers every request with the same status code
  and body, and against stand-ins for the two library parameters. Every URL is accepted and
  parsed to itself (the URLs of the examples need no escapes). The one timestamp that is read
  is that of the zero time, \<^verbatim>\<open>0001-01-01T00:00:00Z\<close>; \<^verbatim>\<open>null\<close> is ignored, and anything else is
  refused and stops the decoding.
\<close>

definition answering :: "int \<Rightarrow> string \<Rightarrow> http_request list \<Rightarrow> http_request \<Rightarrow> go_error + http_response" where
  "answering status body history req = Inr \<lparr>resp_StatusCode = status, resp_Body = Inr body\<rparr>"

definition zero_time_text :: string where
  "zero_time_text = ''0001-01-01T00:00:00Z''"

definition example_time :: "json \<Rightarrow> Time \<Rightarrow> Time \<times> dstatus" where
  "example_time j t =
     (case j of
        JNull \<Rightarrow> (t, DOk)
      | JString x \<Rightarrow> if x = zero_time_text then (Time 0, DOk) else (t, DAbort (ExternalError ''parsing time''))
      | _ \<Rightarrow> (t, DAbort (ExternalError ''Time.UnmarshalJSON: input is not a JSON string'')))"


definition example_lib :: stdlib where
  "example_lib = \<lparr>url_Parse = (\<lambda>u. Inr u), time_UnmarshalJSON = example_time\<rparr>"

definition example_world :: "int \<Rightarrow> string \<Rightarrow> world" where
  "example_world status body = \<lparr>client = NewClient (answering status body) ''tedo_live_xxx'', sent = []\<rparr>"

definition created_body :: string where
  \<open>created_body = ''{"id":"cus_1","email":"a@b.com"}''\<close>



definition not_found_body :: string where
  \<open>not_found_body = ''{"code":"not_found","message":"no such customer"}''\<close>

section \<open>Properties\<close>

subsection \<open>Auxiliary facts\<close>

lemma then_status_DOk: "then_status a b = DOk \<longleftrightarrow> a = DOk \<and> b = DOk"
  by (cases a; cases b) simp_all

lemma dec_string_DOk:
  "dec_string j x = (y, DOk) \<Longrightarrow> y = (case j of JString s \<Rightarrow> s | _ \<Rightarrow> x)"
  by (auto simp: dec_string_def split: json.splits)

lemma dec_members_text:
  assumes hit: "\<And>k. foldName k = name \<Longrightarrow> f k = into get put dec_string"
      and miss: "\<And>k v s. foldName k \<noteq> name \<Longrightarrow> get (fst (f k v s)) = get s"
      and getput: "\<And>x s. get (put x s) = x"
  shows "dec_members f ms s = (s', DOk) \<Longrightarrow>
         get s' = (if member_texts name ms = [] then get s else last (member_texts name ms))"
proof (induction ms arbitrary: s)
  case Nil
  then show ?case by (simp add: member_texts_def)
next
  case (Cons kv ms)
  obtain k v where kv: "kv = (k, v)" by (cases kv)
  obtain s1 st1 where f: "f k v s = (s1, st1)" by (cases "f k v s")
  obtain s2 st2 where r: "dec_members f ms s1 = (s2, st2)" by (cases "dec_members f ms s1")
  from Cons.prems kv f r have ok: "st1 = DOk" "st2 = DOk" "s2 = s'"
    by (cases st1; simp add: then_status_DOk)+
  from Cons.IH [of s1] r ok
  have IH: "get s' = (if member_texts name ms = [] then get s1 else last (member_texts name ms))"
    by simp
  show ?case
  proof (cases "foldName k = name")
    case True
    with f hit have "into get put dec_string v s = (s1, st1)" by simp
    with ok have "get s1 = (case v of JString t \<Rightarrow> t | _ \<Rightarrow> get s)"
      by (auto simp: into_def getput split: prod.splits dest: dec_string_DOk)
    with IH True kv show ?thesis
      by (cases v) (simp_all add: member_texts_def)
  next
    case False
    with miss [of k v s] f have "get s1 = get s" by simp
    with IH False kv show ?thesis
      by (cases v) (simp_all add: member_texts_def)
  qed
qed

lemma Error_members_Code:
  "dec_members Error_fields ms s = (s', DOk) \<Longrightarrow>
   Code s' = (if member_texts ''CODE'' ms = [] then Code s else last (member_texts ''CODE'' ms))"
  by (rule dec_members_text [where f = Error_fields and put = "\<lambda>x e. e\<lparr>Code := x\<rparr>"])
     (auto simp: Error_fields_def Let_def into_def split: prod.splits)

lemma Error_members_Message:
  "dec_members Error_fields ms s = (s', DOk) \<Longrightarrow>
   Message s' = (if member_texts ''MESSAGE'' ms = [] then Message s else last (member_texts ''MESSAGE'' ms))"
  by (rule dec_members_text [where f = Error_fields and put = "\<lambda>x e. e\<lparr>Message := x\<rparr>"])
     (auto simp: Error_fields_def Let_def into_def split: prod.splits)

lemma Error_members_Field:
  "dec_members Error_fields ms s = (s', DOk) \<Longrightarrow>
   Field s' = (if member_texts ''FIELD'' ms = [] then Field s else last (member_texts ''FIELD'' ms))"
  by (rule dec_members_text [where f = Error_fields and put = "\<lambda>x e. e\<lparr>Field := x\<rparr>"])
     (auto simp: Error_fields_def Let_def into_def split: prod.splits)

lemma Unmarshal_Error_object:
  assumes "Unmarshal dec_Error body Error_zero = (e, None)" and "json_parse body = Some (JObject ms)"
  shows "Code e = body_field ''CODE'' ms \<and> Message e = body_field ''MESSAGE'' ms \<and>
         Field e = body_field ''FIELD'' ms"
proof -
  from assms have d: "dec_members Error_fields ms Error_zero = (e, DOk)"
    by (auto simp: Unmarshal_def dec_Error_def dec_struct_def split: prod.splits dstatus.splits)
  show ?thesis
    using Error_members_Code [OF d] Error_members_Message [OF d] Error_members_Field [OF d]
    by (simp add: body_field_def Error_zero_def)
qed

lemma request_do_world: "snd (request_do dec req result w) = w\<lparr>sent := sent w @ [req]\<rparr>"
  by (simp add: request_do_def split: sum.splits)

lemma request_world:
  "snd (request lib marshal dec method path body result w) = w \<or>
   (\<exists>req. snd (request lib marshal dec method path body result w) = w\<lparr>sent := sent w @ [req]\<rparr>)"
  by (auto simp add: request_def request_do_world split: sum.splits)

lemma request_response:
  assumes run: "request lib marshal dec method path body result w = (out, w')"
      and log: "sent w' = sent w @ [req]"
      and ans: "Transport (httpClient (client w)) (sent w) req = Inr resp"
      and rd: "resp_Body resp = Inr respBody"
  shows "out = request_result dec (resp_StatusCode resp) respBody result"
proof (cases "request_body marshal body")
  case (Inl e)
  with run have "w' = w" by (simp add: request_def)
  with log show ?thesis by simp
next
  case (Inr bodyReader)
  note m = this
  show ?thesis
  proof (cases "NewRequestWithContext (url_Parse lib) method (baseURL (client w) @ path) bodyReader")
    case (Inl e)
    with run m have "w' = w" by (simp add: request_def)
    with log show ?thesis by simp
  next
    case (Inr req0)
    with run m have r: "request_do dec (request_headers (client w) req0) result w = (out, w')"
      by (simp add: request_def)
    then have "w' = w\<lparr>sent := sent w @ [request_headers (client w) req0]\<rparr>"
      using request_do_world [of dec "request_headers (client w) req0" result w] by simp
    with log have "request_headers (client w) req0 = req" by simp
    with r ans rd show ?thesis by (simp add: request_do_def)
  qed
qed

lemma byte_chr: "n < 256 \<Longrightarrow> byte (chr n) = n"
  by (simp add: byte_def chr_def)

lemma digits_value_snoc: "digits_value (ds @ [d]) = 10 * digits_value ds + (byte d - 48)"
  by (simp add: digits_value_def)

lemma digits_value_digits: "digits_value (digits n) = n"
proof (induction n rule: digits.induct)
  case (1 n)
  show ?case
  proof (cases "n < 10")
    case True
    then show ?thesis by (subst digits.simps) (simp add: digits_value_def byte_chr)
  next
    case False
    with 1 have "digits_value (digits (n div 10)) = n div 10" by blast
    with False show ?thesis
      by (subst digits.simps) (simp add: digits_value_snoc byte_chr)
  qed
qed

lemma digits_all_digit: "list_all is_digit (digits n)"
proof (induction n rule: digits.induct)
  case (1 n)
  show ?case
  proof (cases "n < 10")
    case True
    then show ?thesis by (subst digits.simps) (simp add: is_digit_def byte_chr)
  next
    case False
    with 1 have "list_all is_digit (digits (n div 10))" by blast
    with False show ?thesis
      by (subst digits.simps) (simp add: is_digit_def byte_chr)
  qed
qed

lemma digits_nonempty: "digits n \<noteq> []"
  by (subst digits.simps) simp

lemma digits_hd: "take 1 (digits n) \<noteq> ''-''"
proof -
  obtain d ds where "digits n = d # ds" using digits_nonempty [of n] by (cases "digits n") auto
  moreover from this digits_all_digit [of n] have "is_digit d" by simp
  ultimately show ?thesis by (auto simp: is_digit_def byte_def)
qed

lemma parse_int64_itoa:
  "- (2 ^ 63) \<le> i \<Longrightarrow> i < 2 ^ 63 \<Longrightarrow> parse_int64 (itoa i) = Some i"
proof (cases "i < 0")
  case True
  assume "- (2 ^ 63) \<le> i" "i < 2 ^ 63"
  with True show ?thesis
    by (simp add: parse_int64_def itoa_def Let_def digits_value_digits digits_all_digit digits_nonempty)
next
  case False
  assume "- (2 ^ 63) \<le> i" "i < 2 ^ 63"
  with False show ?thesis
    using digits_hd [of "nat i"]
    by (simp add: parse_int64_def itoa_def Let_def digits_value_digits digits_all_digit digits_nonempty)
qed

subsection \<open>Error classification\<close>

text \<open>
  Claim C3. \<open>IsNotFound\<close> answers true exactly for a structured API error with status code
  404, \<open>IsValidationError\<close> exactly for one with 400, \<open>IsUnauthorized\<close> exactly for one with
  401; for an error value of any other kind, and for no error at all, the three answer false
  and do not panic.
\<close>

theorem classification_helpers:
  "(IsNotFound err = Inr True \<longleftrightarrow> (\<exists>e. err = Some (APIError (Some e)) \<and> StatusCode e = 404)) \<and>
   (IsValidationError err = Inr True \<longleftrightarrow> (\<exists>e. err = Some (APIError (Some e)) \<and> StatusCode e = 400)) \<and>
   (IsUnauthorized err = Inr True \<longleftrightarrow> (\<exists>e. err = Some (APIError (Some e)) \<and> StatusCode e = 401)) \<and>
   ((\<forall>p. err \<noteq> Some (APIError p)) \<longrightarrow>
      IsNotFound err = Inr False \<and> IsValidationError err = Inr False \<and> IsUnauthorized err = Inr False)"
proof (cases err)
  case None
  then show ?thesis by simp
next
  case (Some x)
  show ?thesis
  proof (cases x)
    case (APIError p)
    with Some show ?thesis by (cases p) auto
  qed (use Some in auto)
qed

theorem classification_helpers_witness:
  "IsNotFound (Some (APIError (Some \<lparr>StatusCode = 404, Code = ''not_found'', Message = ''no such customer'', Field = []\<rparr>))) = Inr True \<and>
   IsNotFound (Some (WrapError ''do request: '' (ExternalError ''connection refused''))) = Inr False \<and>
   IsValidationError (Some (WrapError ''do request: '' (ExternalError ''connection refused''))) = Inr False \<and>
   IsUnauthorized (Some (WrapError ''do request: '' (ExternalError ''connection refused''))) = Inr False"
  using classification_helpers [of "Some (WrapError ''do request: '' (ExternalError ''connection refused''))"]
        classification_helpers [of "Some (APIError (Some \<lparr>StatusCode = 404, Code = ''not_found'', Message = ''no such customer'', Field = []\<rparr>))"]
  by simp

subsection \<open>Responses of 400 and above\<close>

text \<open>
  Claim C1. When the transport answers the request with a status code of 400 or more and a
  body that \<open>Unmarshal\<close> decodes into an \<open>Error\<close> without an error, \<open>request\<close> returns that
  \<open>Error\<close> with the status code of the response as its \<open>StatusCode\<close>, and leaves the destination
  as it was. For a body that is a JSON object, \<open>Code\<close>, \<open>Message\<close> and \<open>Field\<close> are the texts the
  object gives for \<^verbatim>\<open>code\<close>, \<^verbatim>\<open>message\<close> and \<^verbatim>\<open>field\<close>.
\<close>

theorem request_structured_error:
  assumes "request lib marshal dec method path body result w = ((result', err), w')"
      and "sent w' = sent w @ [req]"
      and "Transport (httpClient (client w)) (sent w) req = Inr resp"
      and "resp_Body resp = Inr respBody"
      and "400 \<le> resp_StatusCode resp"
      and "Unmarshal dec_Error respBody Error_zero = (e, None)"
  shows "err = Some (APIError (Some (e\<lparr>StatusCode := resp_StatusCode resp\<rparr>))) \<and>
         result' = result \<and>
         (\<forall>ms. json_parse respBody = Some (JObject ms) \<longrightarrow>
            Code e = body_field ''CODE'' ms \<and> Message e = body_field ''MESSAGE'' ms \<and>
            Field e = body_field ''FIELD'' ms)"
proof -
  from request_response [OF assms(1-4)] assms(5,6)
  have "(result', err) = (result, Some (APIError (Some (e\<lparr>StatusCode := resp_StatusCode resp\<rparr>))))"
    by (simp add: request_result_def parseError_def)
  with Unmarshal_Error_object [OF assms(6)] show ?thesis by simp
qed

lemma not_found_parse:
  "json_parse not_found_body = Some (JObject [(''code'', JString ''not_found''), (''message'', JString ''no such customer'')])"
  by code_simp

lemma not_found_Unmarshal:
  "Unmarshal dec_Error not_found_body Error_zero =
     (\<lparr>StatusCode = 0, Code = ''not_found'', Message = ''no such customer'', Field = []\<rparr>, None)"
  by code_simp

lemma example_sent:
  "sent (snd (request example_lib no_body dec ''GET'' path None result (example_world status text))) =
   sent (example_world status text) @
     [\<lparr>Method = ''GET'', URL = ''https://api.tedo.ai/v1'' @ path,
       Header = [(''Authorization'', ''Bearer tedo_live_xxx''), (''Content-Type'', ''application/json''),
                 (''Accept'', ''application/json'')],
       Body = None\<rparr>]"
  by (simp add: request_def request_body_def NewRequestWithContext_def validMethod_def
      is_token_char_def is_upper_def is_digit_def is_lower_def byte_def example_lib_def example_world_def NewClient_def
      request_do_world request_headers_def Header_Set_def defaultBaseURL_def)

lemma example_answer:
  "Transport (httpClient (client (example_world status text))) (sent (example_world status text)) req =
     Inr \<lparr>resp_StatusCode = status, resp_Body = Inr text\<rparr>"
  by (simp add: example_world_def NewClient_def answering_def)

theorem request_structured_error_witness:
  "fst (request example_lib no_body (dec_Customer example_lib) ''GET'' ''/billing/v1/customers/cus_missing''
          None (Some Customer_zero) (example_world 404 not_found_body)) =
     (Some Customer_zero,
      Some (APIError (Some \<lparr>StatusCode = 404, Code = ''not_found'', Message = ''no such customer'', Field = []\<rparr>)))"
proof -
  let ?R = "request example_lib no_body (dec_Customer example_lib) ''GET'' ''/billing/v1/customers/cus_missing''
          None (Some Customer_zero) (example_world 404 not_found_body)"
  have run: "?R = ((fst (fst ?R), snd (fst ?R)), snd ?R)" by simp
  from request_structured_error [OF run example_sent example_answer _ _ not_found_Unmarshal]
  show ?thesis by (simp add: prod_eq_iff)
qed

lemma Unmarshal_empty: "Unmarshal dec [] v = (v, Some SyntaxError)"
  by (simp add: Unmarshal_def json_parse_def)

text \<open>
  Claim C4. When the transport answers the request with a status code of 400 or more and a
  body that is empty or that \<open>Unmarshal\<close> does not decode into an \<open>Error\<close> without an error,
  \<open>request\<close> returns an \<open>Error\<close> whose \<open>StatusCode\<close> is the status code of the response, whose
  \<open>Message\<close> is the body as received and whose \<open>Code\<close> is \<^verbatim>\<open>unknown_error\<close>.
\<close>

theorem request_unparseable_error:
  assumes "request lib marshal dec method path body result w = ((result', err), w')"
      and "sent w' = sent w @ [req]"
      and "Transport (httpClient (client w)) (sent w) req = Inr resp"
      and "resp_Body resp = Inr respBody"
      and "400 \<le> resp_StatusCode resp"
      and "respBody = [] \<or> snd (Unmarshal dec_Error respBody Error_zero) \<noteq> None"
  shows "err = Some (APIError (Some \<lparr>StatusCode = resp_StatusCode resp, Code = ''unknown_error'',
                                      Message = respBody, Field = []\<rparr>)) \<and>
         result' = result"
proof -
  from assms(6) obtain e uerr where "Unmarshal dec_Error respBody Error_zero = (e, Some uerr)"
    by (cases "Unmarshal dec_Error respBody Error_zero") (auto simp: Unmarshal_empty)
  with request_response [OF assms(1-4)] assms(5) show ?thesis
    by (simp add: request_result_def parseError_def)
qed

lemma bad_gateway_Unmarshal: "snd (Unmarshal dec_Error ''Bad Gateway'' Error_zero) = Some SyntaxError"
  by code_simp

theorem request_unparseable_error_witness:
  "fst (request example_lib no_body (dec_Customer example_lib) ''GET'' ''/billing/v1/customers/cus_missing''
          None (Some Customer_zero) (example_world 502 ''Bad Gateway'')) =
     (Some Customer_zero,
      Some (APIError (Some \<lparr>StatusCode = 502, Code = ''unknown_error'', Message = ''Bad Gateway'', Field = []\<rparr>))) \<and>
   fst (request example_lib no_body (dec_Customer example_lib) ''GET'' ''/billing/v1/customers/cus_missing''
          None (Some Customer_zero) (example_world 500 [])) =
     (Some Customer_zero,
      Some (APIError (Some \<lparr>StatusCode = 500, Code = ''unknown_error'', Message = [], Field = []\<rparr>)))"
proof -
  let ?R = "request example_lib no_body (dec_Customer example_lib) ''GET'' ''/billing/v1/customers/cus_missing''
          None (Some Customer_zero) (example_world 502 ''Bad Gateway'')"
  let ?S = "request example_lib no_body (dec_Customer example_lib) ''GET'' ''/billing/v1/customers/cus_missing''
          None (Some Customer_zero) (example_world 500 [])"
  have R: "?R = ((fst (fst ?R), snd (fst ?R)), snd ?R)" and S: "?S = ((fst (fst ?S), snd (fst ?S)), snd ?S)"
    by simp_all
  from request_unparseable_error [OF R example_sent example_answer] bad_gateway_Unmarshal
       request_unparseable_error [OF S example_sent example_answer]
  show ?thesis by (simp add: prod_eq_iff)
qed

subsection \<open>Responses below 400\<close>






lemma then_status_DOk_left: "then_status DOk st = st"
  by (cases st) simp_all

lemma dec_members_append:
  "dec_members f xs s = (s', DOk) \<Longrightarrow> dec_members f (xs @ ys) s = dec_members f ys s'"
proof (induction xs arbitrary: s)
  case Nil
  then show ?case by simp
next
  case (Cons kv xs)
  obtain k v where kv: "kv = (k, v)" by (cases kv)
  obtain s1 st1 where f: "f k v s = (s1, st1)" by (cases "f k v s")
  obtain s2 st2 where r: "dec_members f xs s1 = (s2, st2)" by (cases "dec_members f xs s1")
  from Cons.prems kv f r have ok: "st1 = DOk" "st2 = DOk" "s2 = s'"
    by (cases st1; simp add: then_status_DOk)+
  from Cons.IH [of s1] r ok have "dec_members f (xs @ ys) s1 = dec_members f ys s'" by simp
  with kv f ok show ?case
    by (simp add: then_status_DOk_left split: prod.splits)
qed





































subsection \<open>The client is only read\<close>

lemma returned_world: "snd (returned local out) = snd out"
  by (simp add: returned_def split: prod.splits option.splits)

lemma request_client: "client (snd (request lib marshal dec m p body result w)) = client w"
  using request_world [of lib marshal dec m p body result w] by auto

lemma CreateCustomerForUser_world:
  "snd (CreateCustomerForUser lib userID email name w) =
   snd (CreateCustomer lib
          (Some \<lparr>CreateCustomerParams_Email = email, CreateCustomerParams_Name = name,
                 CreateCustomerParams_ExternalID = ''user:'' @ itoa userID,
                 CreateCustomerParams_Metadata = None\<rparr>) w)"
  unfolding CreateCustomerForUser_def
  by (cases "CreateCustomer lib
          (Some \<lparr>CreateCustomerParams_Email = email, CreateCustomerParams_Name = name,
                 CreateCustomerParams_ExternalID = ''user:'' @ itoa userID,
                 CreateCustomerParams_Metadata = None\<rparr>) w")
     (simp split: sum.splits)

lemma createSubscriptionWithPlan_world:
  "snd (createSubscriptionWithPlan lib customerID planKey priceKey w) =
   snd (CreateSubscription lib
          (Some \<lparr>CreateSubscriptionParams_CustomerID = customerID,
                 CreateSubscriptionParams_PriceID = [],
                 CreateSubscriptionParams_PlanKey = planKey,
                 CreateSubscriptionParams_PriceKey = priceKey,
                 CreateSubscriptionParams_Quantity = 0,
                 CreateSubscriptionParams_Metadata = None\<rparr>) w)"
  unfolding createSubscriptionWithPlan_def
  by (cases "CreateSubscription lib
          (Some \<lparr>CreateSubscriptionParams_CustomerID = customerID,
                 CreateSubscriptionParams_PriceID = [],
                 CreateSubscriptionParams_PlanKey = planKey,
                 CreateSubscriptionParams_PriceKey = priceKey,
                 CreateSubscriptionParams_Quantity = 0,
                 CreateSubscriptionParams_Metadata = None\<rparr>) w")
     (simp split: sum.splits)

text \<open>
  Claim C8. A call of \<open>request\<close>, and so a call of an accessor, leaves the client as it was:
  the API key, the base URL and the HTTP client are the same after the call as before it,
  whatever the arguments and whatever the transport answers.
\<close>

theorem client_unchanged:
  "apiKey (client (snd (request lib marshal dec method path body result w))) = apiKey (client w) \<and>
   baseURL (client (snd (request lib marshal dec method path body result w))) = baseURL (client w) \<and>
   httpClient (client (snd (request lib marshal dec method path body result w))) = httpClient (client w) \<and>
   client (snd (request lib marshal dec method path body result w)) = client w \<and>
   client (snd (CreateCustomer lib cparams w)) = client w \<and>
   client (snd (CreateCustomerForUser lib userID email name w)) = client w \<and>
   client (snd (GetCustomer lib id' w)) = client w \<and>
   client (snd (ListCustomers lib lparams w)) = client w \<and>
   client (snd (UpdateCustomer lib id' uparams w)) = client w \<and>
   client (snd (CreateSubscription lib sparams w)) = client w \<and>
   client (snd (createSubscriptionWithPlan lib customerID planKey priceKey w)) = client w"
  by (simp add: CreateCustomerForUser_world createSubscriptionWithPlan_world
      CreateCustomer_def CreateSubscription_def
      request_client GetCustomer_def ListCustomers_def UpdateCustomer_def returned_world)

subsection \<open>The path of ListCustomers\<close>

lemma validMethod_GET: "validMethod ''GET''"
  by (simp add: validMethod_def is_token_char_def is_upper_def is_digit_def is_lower_def byte_def)

lemma validMethod_POST: "validMethod ''POST''"
  by (simp add: validMethod_def is_token_char_def is_upper_def is_digit_def is_lower_def byte_def)

lemma validMethod_PATCH: "validMethod ''PATCH''"
  by (simp add: validMethod_def is_token_char_def is_upper_def is_digit_def is_lower_def byte_def)

lemma request_sent:
  assumes "request_body marshal body = Inr b" and "validMethod m" and "m \<noteq> []"
  shows "sent (snd (request lib marshal dec m p body result w)) =
           (case url_Parse lib (baseURL (client w) @ p) of
              Inr u \<Rightarrow> sent w @ [request_headers (client w) \<lparr>Method = m, URL = u, Header = [], Body = b\<rparr>]
            | Inl e \<Rightarrow> sent w)"
  using assms
  by (simp add: request_def NewRequestWithContext_def request_do_world split: sum.splits)

lemma ListCustomers_path_spec: "ListCustomers_path params = spec_customers_path params"
  by (cases params) (simp_all add: ListCustomers_path_def spec_customers_path_def query_parts_def Let_def)

text \<open>
  Claim C6. \<open>ListCustomers\<close> asks for the customers path followed by the query string of the
  specification: \<^verbatim>\<open>limit=\<close> with the limit in decimal exactly when the limit is positive,
  \<^verbatim>\<open>cursor=\<close> with the cursor exactly when the cursor is not empty, in that order, joined by
  an ampersand and prefixed by a question mark; and the bare path when \<^verbatim>\<open>params\<close> is nil or
  neither holds. The request that goes out is a GET without a body for what \<^verbatim>\<open>url.Parse\<close>
  makes of the base URL followed by that path; none goes out when \<^verbatim>\<open>url.Parse\<close> refuses it.
\<close>

theorem ListCustomers_query:
  "ListCustomers_path params = spec_customers_path params \<and>
   (url_Parse lib (baseURL (client w) @ spec_customers_path params) = Inr u \<longrightarrow>
      sent (snd (ListCustomers lib params w)) =
        sent w @ [request_headers (client w) \<lparr>Method = ''GET'', URL = u, Header = [], Body = None\<rparr>]) \<and>
   (url_Parse lib (baseURL (client w) @ spec_customers_path params) = Inl e \<longrightarrow>
      sent (snd (ListCustomers lib params w)) = sent w)"
proof -
  have b: "request_body no_body None = Inr None" by (simp add: request_body_def)
  have ne: "''GET'' \<noteq> []" by simp
  show ?thesis
    using request_sent [OF b validMethod_GET ne, of lib "dec_CustomerList lib" "spec_customers_path params"
                          "Some CustomerList_zero" w]
    by (simp add: ListCustomers_path_spec ListCustomers_def returned_world)
qed

theorem ListCustomers_query_witness:
  "ListCustomers_path (Some \<lparr>ListCustomersParams_Limit = 250, ListCustomersParams_Cursor = ''abc''\<rparr>) =
     ''/billing/v1/customers?limit=250&cursor=abc'' \<and>
   ListCustomers_path (Some \<lparr>ListCustomersParams_Limit = 0, ListCustomersParams_Cursor = ''abc''\<rparr>) =
     ''/billing/v1/customers?cursor=abc'' \<and>
   ListCustomers_path (Some \<lparr>ListCustomersParams_Limit = 10, ListCustomersParams_Cursor = []\<rparr>) =
     ''/billing/v1/customers?limit=10'' \<and>
   ListCustomers_path (Some \<lparr>ListCustomersParams_Limit = 0, ListCustomersParams_Cursor = []\<rparr>) =
     ''/billing/v1/customers'' \<and>
   ListCustomers_path None = ''/billing/v1/customers'' \<and>
   map URL (sent (snd (ListCustomers example_lib
       (Some \<lparr>ListCustomersParams_Limit = 250, ListCustomersParams_Cursor = ''abc''\<rparr>)
       (example_world 200 [])))) =
     [''https://api.tedo.ai/v1/billing/v1/customers?limit=250&cursor=abc'']"
proof -
  have p: "spec_customers_path (Some \<lparr>ListCustomersParams_Limit = 250, ListCustomersParams_Cursor = ''abc''\<rparr>) =
             ''/billing/v1/customers?limit=250&cursor=abc''"
          "spec_customers_path (Some \<lparr>ListCustomersParams_Limit = 0, ListCustomersParams_Cursor = ''abc''\<rparr>) =
             ''/billing/v1/customers?cursor=abc''"
          "spec_customers_path (Some \<lparr>ListCustomersParams_Limit = 10, ListCustomersParams_Cursor = []\<rparr>) =
             ''/billing/v1/customers?limit=10''"
          "spec_customers_path (Some \<lparr>ListCustomersParams_Limit = 0, ListCustomersParams_Cursor = []\<rparr>) =
             ''/billing/v1/customers''"
          "spec_customers_path None = ''/billing/v1/customers''"
    by code_simp+
  have u: "url_Parse example_lib x = Inr x" for x by (simp add: example_lib_def)
  have c: "baseURL (client (example_world 200 [])) = ''https://api.tedo.ai/v1''"
          "sent (example_world 200 []) = []"
    by (simp_all add: example_world_def NewClient_def defaultBaseURL_def)
  show ?thesis
    using ListCustomers_query [of "Some \<lparr>ListCustomersParams_Limit = 250, ListCustomersParams_Cursor = ''abc''\<rparr>"
                                 example_lib "example_world 200 []"
                                 "''https://api.tedo.ai/v1/billing/v1/customers?limit=250&cursor=abc''"]
          ListCustomers_query [of "Some \<lparr>ListCustomersParams_Limit = 0, ListCustomersParams_Cursor = ''abc''\<rparr>"
                                 example_lib "example_world 200 []"]
          ListCustomers_query [of "Some \<lparr>ListCustomersParams_Limit = 10, ListCustomersParams_Cursor = []\<rparr>"
                                 example_lib "example_world 200 []"]
          ListCustomers_query [of "Some \<lparr>ListCustomersParams_Limit = 0, ListCustomersParams_Cursor = []\<rparr>"
                                 example_lib "example_world 200 []"]
          ListCustomers_query [of None example_lib "example_world 200 []"]
    by (simp add: p u c request_headers_def Header_Set_def)
qed

subsection \<open>Bodies of partial updates\<close>

lemma enc_only_email:
  "UpdateCustomerParams_Email p = Some e \<and> UpdateCustomerParams_Name p = None \<and>
    UpdateCustomerParams_ExternalID p = None \<and>
    (UpdateCustomerParams_Metadata p = None \<or> UpdateCustomerParams_Metadata p = Some []) \<longrightarrow>
      enc_UpdateCustomerParams p = JObject [(''email'', JString (toValidUTF8 e))]"
  by (auto simp: enc_UpdateCustomerParams_def omitempty_ptr_def omitempty_map_def enc_string_def)

lemma enc_only_name:
  "UpdateCustomerParams_Email p = None \<and> UpdateCustomerParams_Name p = Some n \<and>
    UpdateCustomerParams_ExternalID p = None \<and>
    (UpdateCustomerParams_Metadata p = None \<or> UpdateCustomerParams_Metadata p = Some []) \<longrightarrow>
      enc_UpdateCustomerParams p = JObject [(''name'', JString (toValidUTF8 n))]"
  by (auto simp: enc_UpdateCustomerParams_def omitempty_ptr_def omitempty_map_def enc_string_def)

lemma enc_only_external_id:
  "UpdateCustomerParams_Email p = None \<and> UpdateCustomerParams_Name p = None \<and>
    UpdateCustomerParams_ExternalID p = Some x \<and>
    (UpdateCustomerParams_Metadata p = None \<or> UpdateCustomerParams_Metadata p = Some []) \<longrightarrow>
      enc_UpdateCustomerParams p = JObject [(''external_id'', JString (toValidUTF8 x))]"
  by (auto simp: enc_UpdateCustomerParams_def omitempty_ptr_def omitempty_map_def enc_string_def)

lemma enc_only_metadata:
  "UpdateCustomerParams_Email p = None \<and> UpdateCustomerParams_Name p = None \<and>
    UpdateCustomerParams_ExternalID p = None \<and>
    UpdateCustomerParams_Metadata p = Some kvs \<and> kvs \<noteq> [] \<longrightarrow>
      enc_UpdateCustomerParams p = JObject [(''metadata'', enc_map kvs)]"
  by (simp add: enc_UpdateCustomerParams_def omitempty_ptr_def omitempty_map_def)

lemma enc_only_key:
  "UpdatePlanParams_Key q = Some k \<and> UpdatePlanParams_Name q = None \<and>
    UpdatePlanParams_Description q = None \<and> UpdatePlanParams_IsActive q = None \<longrightarrow>
      enc_UpdatePlanParams q = JObject [(''key'', JString (toValidUTF8 k))]"
  by (simp add: enc_UpdatePlanParams_def omitempty_ptr_def enc_string_def)

lemma enc_only_plan_name:
  "UpdatePlanParams_Key q = None \<and> UpdatePlanParams_Name q = Some n \<and>
    UpdatePlanParams_Description q = None \<and> UpdatePlanParams_IsActive q = None \<longrightarrow>
      enc_UpdatePlanParams q = JObject [(''name'', JString (toValidUTF8 n))]"
  by (simp add: enc_UpdatePlanParams_def omitempty_ptr_def enc_string_def)

lemma enc_only_description:
  "UpdatePlanParams_Key q = None \<and> UpdatePlanParams_Name q = None \<and>
    UpdatePlanParams_Description q = Some d \<and> UpdatePlanParams_IsActive q = None \<longrightarrow>
      enc_UpdatePlanParams q = JObject [(''description'', JString (toValidUTF8 d))]"
  by (simp add: enc_UpdatePlanParams_def omitempty_ptr_def enc_string_def)

lemma enc_only_is_active:
  "UpdatePlanParams_Key q = None \<and> UpdatePlanParams_Name q = None \<and>
    UpdatePlanParams_Description q = None \<and> UpdatePlanParams_IsActive q = Some a \<longrightarrow>
      enc_UpdatePlanParams q = JObject [(''is_active'', JBool a)]"
  by (simp add: enc_UpdatePlanParams_def omitempty_ptr_def)

lemma UpdateCustomer_body:
  "url_Parse lib (baseURL (client w) @ ''/billing/v1/customers/'' @ id') = Inr u \<longrightarrow>
      map Body (sent (snd (UpdateCustomer lib id' (Some p) w))) =
        map Body (sent w) @ [Some (enc_UpdateCustomerParams p)]"
proof -
  have b: "request_body (Marshal_ptr enc_UpdateCustomerParams) (Some (Some p)) =
             Inr (Some (enc_UpdateCustomerParams p))"
    by (simp add: request_body_def Marshal_ptr_def)
  have ne: "''PATCH'' \<noteq> []" by simp
  have h: "Body (request_headers c r) = Body r" for c r
    by (simp add: request_headers_def Header_Set_def)
  show ?thesis
    using request_sent [OF b validMethod_PATCH ne, of lib "dec_Customer lib" "''/billing/v1/customers/'' @ id'"
                          "Some Customer_zero" w]
    by (simp add: UpdateCustomer_def returned_world h)
qed

text \<open>
  Claim C5, amended. When exactly one optional field of an \<open>UpdateCustomerParams\<close> or of an
  \<open>UpdatePlanParams\<close> is set, where a pointer field is set when it is not nil and the
  \<open>Metadata\<close> map is set when it has at least one entry, the body is a JSON object with that
  field as its only member, also when the pointer points to an empty string or to \<^verbatim>\<open>false\<close>.
  A nil pointer, and a \<open>Metadata\<close> map that is nil or has no entry, add no member. The body
  of the request that \<open>UpdateCustomer\<close> sends is this object.
\<close>

theorem partial_update_body:
  "(UpdateCustomerParams_Email p = Some e \<and> UpdateCustomerParams_Name p = None \<and>
    UpdateCustomerParams_ExternalID p = None \<and>
    (UpdateCustomerParams_Metadata p = None \<or> UpdateCustomerParams_Metadata p = Some []) \<longrightarrow>
      enc_UpdateCustomerParams p = JObject [(''email'', JString (toValidUTF8 e))]) \<and>
   (UpdateCustomerParams_Email p = None \<and> UpdateCustomerParams_Name p = Some n \<and>
    UpdateCustomerParams_ExternalID p = None \<and>
    (UpdateCustomerParams_Metadata p = None \<or> UpdateCustomerParams_Metadata p = Some []) \<longrightarrow>
      enc_UpdateCustomerParams p = JObject [(''name'', JString (toValidUTF8 n))]) \<and>
   (UpdateCustomerParams_Email p = None \<and> UpdateCustomerParams_Name p = None \<and>
    UpdateCustomerParams_ExternalID p = Some x \<and>
    (UpdateCustomerParams_Metadata p = None \<or> UpdateCustomerParams_Metadata p = Some []) \<longrightarrow>
      enc_UpdateCustomerParams p = JObject [(''external_id'', JString (toValidUTF8 x))]) \<and>
   (UpdateCustomerParams_Email p = None \<and> UpdateCustomerParams_Name p = None \<and>
    UpdateCustomerParams_ExternalID p = None \<and>
    UpdateCustomerParams_Metadata p = Some kvs \<and> kvs \<noteq> [] \<longrightarrow>
      enc_UpdateCustomerParams p = JObject [(''metadata'', enc_map kvs)]) \<and>
   (UpdatePlanParams_Key q = Some k \<and> UpdatePlanParams_Name q = None \<and>
    UpdatePlanParams_Description q = None \<and> UpdatePlanParams_IsActive q = None \<longrightarrow>
      enc_UpdatePlanParams q = JObject [(''key'', JString (toValidUTF8 k))]) \<and>
   (UpdatePlanParams_Key q = None \<and> UpdatePlanParams_Name q = Some n \<and>
    UpdatePlanParams_Description q = None \<and> UpdatePlanParams_IsActive q = None \<longrightarrow>
      enc_UpdatePlanParams q = JObject [(''name'', JString (toValidUTF8 n))]) \<and>
   (UpdatePlanParams_Key q = None \<and> UpdatePlanParams_Name q = None \<and>
    UpdatePlanParams_Description q = Some d \<and> UpdatePlanParams_IsActive q = None \<longrightarrow>
      enc_UpdatePlanParams q = JObject [(''description'', JString (toValidUTF8 d))]) \<and>
   (UpdatePlanParams_Key q = None \<and> UpdatePlanParams_Name q = None \<and>
    UpdatePlanParams_Description q = None \<and> UpdatePlanParams_IsActive q = Some a \<longrightarrow>
      enc_UpdatePlanParams q = JObject [(''is_active'', JBool a)]) \<and>
   (url_Parse lib (baseURL (client w) @ ''/billing/v1/customers/'' @ id') = Inr u \<longrightarrow>
      map Body (sent (snd (UpdateCustomer lib id' (Some p) w))) =
        map Body (sent w) @ [Some (enc_UpdateCustomerParams p)])"
  by (intro conjI)
     (rule enc_only_email enc_only_name enc_only_external_id enc_only_metadata enc_only_key
           enc_only_plan_name enc_only_description enc_only_is_active UpdateCustomer_body)+

theorem partial_update_body_witness:
  "enc_UpdateCustomerParams
     \<lparr>UpdateCustomerParams_Email = None, UpdateCustomerParams_Name = Some [],
      UpdateCustomerParams_ExternalID = None, UpdateCustomerParams_Metadata = None\<rparr> =
     JObject [(''name'', JString [])] \<and>
   enc_UpdateCustomerParams
     \<lparr>UpdateCustomerParams_Email = None, UpdateCustomerParams_Name = None,
      UpdateCustomerParams_ExternalID = None, UpdateCustomerParams_Metadata = Some [(''tier'', ''gold'')]\<rparr> =
     JObject [(''metadata'', JObject [(''tier'', JString ''gold'')])] \<and>
   enc_UpdatePlanParams
     \<lparr>UpdatePlanParams_Key = None, UpdatePlanParams_Name = None,
      UpdatePlanParams_Description = None, UpdatePlanParams_IsActive = Some False\<rparr> =
     JObject [(''is_active'', JBool False)] \<and>
   map Body (sent (snd (UpdateCustomer example_lib ''cus_1''
      (Some \<lparr>UpdateCustomerParams_Email = None, UpdateCustomerParams_Name = Some [],
             UpdateCustomerParams_ExternalID = None, UpdateCustomerParams_Metadata = None\<rparr>)
      (example_world 200 created_body)))) = [Some (JObject [(''name'', JString [])])]"
proof -
  have m: "enc_map [(''tier'', ''gold'')] = JObject [(''tier'', JString ''gold'')]"
    by code_simp
  have u: "url_Parse example_lib x = Inr x" for x by (simp add: example_lib_def)
  have c: "sent (example_world 200 created_body) = []"
    by (simp add: example_world_def)
  show ?thesis
    using partial_update_body [of "\<lparr>UpdateCustomerParams_Email = None, UpdateCustomerParams_Name = Some [],
             UpdateCustomerParams_ExternalID = None, UpdateCustomerParams_Metadata = None\<rparr>"
             _ "[]" _ _ "\<lparr>UpdatePlanParams_Key = None, UpdatePlanParams_Name = None,
      UpdatePlanParams_Description = None, UpdatePlanParams_IsActive = Some False\<rparr>" _ _ False
             example_lib "example_world 200 created_body" "''cus_1''"
             "''https://api.tedo.ai/v1/billing/v1/customers/cus_1''"]
          partial_update_body [of "\<lparr>UpdateCustomerParams_Email = None, UpdateCustomerParams_Name = None,
      UpdateCustomerParams_ExternalID = None, UpdateCustomerParams_Metadata = Some [(''tier'', ''gold'')]\<rparr>"
             _ _ _ "[(''tier'', ''gold'')]"]
    by (simp add: m u c toValidUTF8.simps(1) example_world_def NewClient_def defaultBaseURL_def)
qed

text \<open>
  Claim C5 as stated counts a field as unset when it is nil. An \<open>UpdateCustomerParams\<close> whose
  only field that is not nil is a \<open>Metadata\<close> map without entries has one field set in that
  sense, and its body is the empty object: the field is not in it.
\<close>

theorem partial_update_body_counterexample:
  "enc_UpdateCustomerParams
     \<lparr>UpdateCustomerParams_Email = None, UpdateCustomerParams_Name = None,
      UpdateCustomerParams_ExternalID = None, UpdateCustomerParams_Metadata = Some []\<rparr> = JObject [] \<and>
   map Body (sent (snd (UpdateCustomer example_lib ''cus_1''
      (Some \<lparr>UpdateCustomerParams_Email = None, UpdateCustomerParams_Name = None,
             UpdateCustomerParams_ExternalID = None, UpdateCustomerParams_Metadata = Some []\<rparr>)
      (example_world 200 created_body)))) = [Some (JObject [])]"
  by code_simp

subsection \<open>The convenience wrappers\<close>

lemma CreateCustomerForUser_result:
  "fst (CreateCustomerForUser lib userID email name w) =
     (case fst (CreateCustomer lib
                  (Some \<lparr>CreateCustomerParams_Email = email, CreateCustomerParams_Name = name,
                         CreateCustomerParams_ExternalID = ''user:'' @ itoa userID,
                         CreateCustomerParams_Metadata = None\<rparr>) w) of
        Inl err \<Rightarrow> ([], Some (WrapError ''failed to create billing customer for user: '' err))
      | Inr customer \<Rightarrow> (Customer_ID customer, None))"
  unfolding CreateCustomerForUser_def
  by (cases "CreateCustomer lib
          (Some \<lparr>CreateCustomerParams_Email = email, CreateCustomerParams_Name = name,
                 CreateCustomerParams_ExternalID = ''user:'' @ itoa userID,
                 CreateCustomerParams_Metadata = None\<rparr>) w")
     (simp split: sum.splits)

lemma createSubscriptionWithPlan_result:
  "fst (createSubscriptionWithPlan lib customerID planKey priceKey w) =
     (case fst (CreateSubscription lib
          (Some \<lparr>CreateSubscriptionParams_CustomerID = customerID,
                 CreateSubscriptionParams_PriceID = [],
                 CreateSubscriptionParams_PlanKey = planKey,
                 CreateSubscriptionParams_PriceKey = priceKey,
                 CreateSubscriptionParams_Quantity = 0,
                 CreateSubscriptionParams_Metadata = None\<rparr>) w) of
        Inl err \<Rightarrow> ([], Some (WrapError ''failed to create subscription: '' err))
      | Inr subscription \<Rightarrow> (Subscription_ID subscription, None))"
  unfolding createSubscriptionWithPlan_def
  by (cases "CreateSubscription lib
          (Some \<lparr>CreateSubscriptionParams_CustomerID = customerID,
                 CreateSubscriptionParams_PriceID = [],
                 CreateSubscriptionParams_PlanKey = planKey,
                 CreateSubscriptionParams_PriceKey = priceKey,
                 CreateSubscriptionParams_Quantity = 0,
                 CreateSubscriptionParams_Metadata = None\<rparr>) w")
     (simp split: sum.splits)

text \<open>
  Claim C7. \<open>CreateCustomerForUser\<close> is \<open>CreateCustomer\<close> called with the email, the name and the
  external ID \<^verbatim>\<open>user:\<close> followed by the user ID in decimal: the state after the call, and so
  every request sent, is that of \<open>CreateCustomer\<close>; when \<open>CreateCustomer\<close> returns a customer the
  result is the customer's ID without an error, and when it returns an error the result is
  the empty string with an error that wraps it. The decimal text reads back as the user ID.
\<close>

theorem CreateCustomerForUser_sugar:
  "snd (CreateCustomerForUser lib userID email name w) =
     snd (CreateCustomer lib
            (Some \<lparr>CreateCustomerParams_Email = email, CreateCustomerParams_Name = name,
                   CreateCustomerParams_ExternalID = ''user:'' @ itoa userID,
                   CreateCustomerParams_Metadata = None\<rparr>) w) \<and>
   (\<forall>customer.
      fst (CreateCustomer lib
             (Some \<lparr>CreateCustomerParams_Email = email, CreateCustomerParams_Name = name,
                    CreateCustomerParams_ExternalID = ''user:'' @ itoa userID,
                    CreateCustomerParams_Metadata = None\<rparr>) w) = Inr customer \<longrightarrow>
      fst (CreateCustomerForUser lib userID email name w) = (Customer_ID customer, None)) \<and>
   (\<forall>err.
      fst (CreateCustomer lib
             (Some \<lparr>CreateCustomerParams_Email = email, CreateCustomerParams_Name = name,
                    CreateCustomerParams_ExternalID = ''user:'' @ itoa userID,
                    CreateCustomerParams_Metadata = None\<rparr>) w) = Inl err \<longrightarrow>
      fst (CreateCustomerForUser lib userID email name w) =
        ([], Some (WrapError ''failed to create billing customer for user: '' err))) \<and>
   (- (2 ^ 63) \<le> userID \<and> userID < 2 ^ 63 \<longrightarrow> parse_int64 (itoa userID) = Some userID)"
  by (simp add: CreateCustomerForUser_world CreateCustomerForUser_result parse_int64_itoa)

lemma example_created:
  "fst (CreateCustomer example_lib
          (Some \<lparr>CreateCustomerParams_Email = ''a@b.com'', CreateCustomerParams_Name = ''Ann'',
                 CreateCustomerParams_ExternalID = ''user:'' @ itoa 42,
                 CreateCustomerParams_Metadata = None\<rparr>) (example_world 200 created_body)) =
     Inr (Customer_zero\<lparr>Customer_ID := ''cus_1'', Customer_Email := ''a@b.com''\<rparr>)"
  by code_simp

lemma example_created_sent:
  "map Body (sent (snd (CreateCustomer example_lib
          (Some \<lparr>CreateCustomerParams_Email = ''a@b.com'', CreateCustomerParams_Name = ''Ann'',
                 CreateCustomerParams_ExternalID = ''user:'' @ itoa 42,
                 CreateCustomerParams_Metadata = None\<rparr>) (example_world 200 created_body)))) =
     [Some (JObject [(''email'', JString ''a@b.com''), (''name'', JString ''Ann''),
                     (''external_id'', JString ''user:42'')])]"
  by code_simp

lemma example_refused:
  "fst (CreateCustomer example_lib
          (Some \<lparr>CreateCustomerParams_Email = ''a@b.com'', CreateCustomerParams_Name = ''Ann'',
                 CreateCustomerParams_ExternalID = ''user:'' @ itoa (- 7),
                 CreateCustomerParams_Metadata = None\<rparr>) (example_world 404 not_found_body)) =
     Inl (APIError (Some \<lparr>StatusCode = 404, Code = ''not_found'', Message = ''no such customer'', Field = []\<rparr>))"
  by code_simp

theorem CreateCustomerForUser_sugar_witness:
  "fst (CreateCustomerForUser example_lib 42 ''a@b.com'' ''Ann'' (example_world 200 created_body)) =
     (''cus_1'', None) \<and>
   map Body (sent (snd (CreateCustomerForUser example_lib 42 ''a@b.com'' ''Ann''
                          (example_world 200 created_body)))) =
     [Some (JObject [(''email'', JString ''a@b.com''), (''name'', JString ''Ann''),
                     (''external_id'', JString ''user:42'')])] \<and>
   fst (CreateCustomerForUser example_lib (- 7) ''a@b.com'' ''Ann'' (example_world 404 not_found_body)) =
     ([], Some (WrapError ''failed to create billing customer for user: ''
                  (APIError (Some \<lparr>StatusCode = 404, Code = ''not_found'',
                                    Message = ''no such customer'', Field = []\<rparr>)))) \<and>
   parse_int64 (itoa 42) = Some 42"
  using CreateCustomerForUser_sugar [of example_lib 42 "''a@b.com''" "''Ann''" "example_world 200 created_body"]
        CreateCustomerForUser_sugar [of example_lib "- 7" "''a@b.com''" "''Ann''" "example_world 404 not_found_body"]
        example_created example_created_sent example_refused
  by (simp add: Customer_zero_def)

text \<open>
  Claim C9. When \<open>CreateCustomer\<close> fails with a structured API error, the error that
  \<open>CreateCustomerForUser\<close> returns is that error wrapped by \<^verbatim>\<open>fmt.Errorf\<close>, and when
  \<open>CreateSubscription\<close> fails with one, so is the error that \<open>createSubscriptionWithPlan\<close>
  returns. On the wrapped error \<open>IsNotFound\<close>, \<open>IsValidationError\<close> and \<open>IsUnauthorized\<close> answer
  false, whatever the status code, while on the error inside they answer by its status code.
\<close>

theorem wrapped_errors_not_classified:
  "(\<forall>e. fst (CreateCustomer lib
               (Some \<lparr>CreateCustomerParams_Email = email, CreateCustomerParams_Name = name,
                      CreateCustomerParams_ExternalID = ''user:'' @ itoa userID,
                      CreateCustomerParams_Metadata = None\<rparr>) w) = Inl (APIError (Some e)) \<longrightarrow>
        snd (fst (CreateCustomerForUser lib userID email name w)) =
          Some (WrapError ''failed to create billing customer for user: '' (APIError (Some e))) \<and>
        IsNotFound (snd (fst (CreateCustomerForUser lib userID email name w))) = Inr False \<and>
        IsValidationError (snd (fst (CreateCustomerForUser lib userID email name w))) = Inr False \<and>
        IsUnauthorized (snd (fst (CreateCustomerForUser lib userID email name w))) = Inr False \<and>
        IsNotFound (Some (APIError (Some e))) = Inr (StatusCode e = 404) \<and>
        IsValidationError (Some (APIError (Some e))) = Inr (StatusCode e = 400) \<and>
        IsUnauthorized (Some (APIError (Some e))) = Inr (StatusCode e = 401)) \<and>
   (\<forall>e. fst (CreateSubscription lib
               (Some \<lparr>CreateSubscriptionParams_CustomerID = customerID,
                      CreateSubscriptionParams_PriceID = [],
                      CreateSubscriptionParams_PlanKey = planKey,
                      CreateSubscriptionParams_PriceKey = priceKey,
                      CreateSubscriptionParams_Quantity = 0,
                      CreateSubscriptionParams_Metadata = None\<rparr>) w) = Inl (APIError (Some e)) \<longrightarrow>
        snd (fst (createSubscriptionWithPlan lib customerID planKey priceKey w)) =
          Some (WrapError ''failed to create subscription: '' (APIError (Some e))) \<and>
        IsNotFound (snd (fst (createSubscriptionWithPlan lib customerID planKey priceKey w))) = Inr False \<and>
        IsValidationError (snd (fst (createSubscriptionWithPlan lib customerID planKey priceKey w))) = Inr False \<and>
        IsUnauthorized (snd (fst (createSubscriptionWithPlan lib customerID planKey priceKey w))) = Inr False)"
  by (simp add: CreateCustomerForUser_result createSubscriptionWithPlan_result)

lemma example_subscription_refused:
  "fst (CreateSubscription example_lib
               (Some \<lparr>CreateSubscriptionParams_CustomerID = ''cus_missing'',
                      CreateSubscriptionParams_PriceID = [],
                      CreateSubscriptionParams_PlanKey = ''free'',
                      CreateSubscriptionParams_PriceKey = ''free_monthly_EUR'',
                      CreateSubscriptionParams_Quantity = 0,
                      CreateSubscriptionParams_Metadata = None\<rparr>) (example_world 404 not_found_body)) =
     Inl (APIError (Some \<lparr>StatusCode = 404, Code = ''not_found'', Message = ''no such customer'', Field = []\<rparr>))"
  by code_simp

theorem wrapped_errors_not_classified_witness:
  "IsNotFound (snd (fst (CreateCustomerForUser example_lib (- 7) ''a@b.com'' ''Ann''
                            (example_world 404 not_found_body)))) = Inr False \<and>
   IsNotFound (snd (fst (createSubscriptionWithPlan example_lib ''cus_missing'' ''free'' ''free_monthly_EUR''
                            (example_world 404 not_found_body)))) = Inr False \<and>
   IsNotFound (Some (APIError (Some \<lparr>StatusCode = 404, Code = ''not_found'',
                                      Message = ''no such customer'', Field = []\<rparr>))) = Inr True"
  using wrapped_errors_not_classified [of example_lib "''a@b.com''" "''Ann''" "- 7" "example_world 404 not_found_body"
          "''cus_missing''" "''free''" "''free_monthly_EUR''"]
        example_refused example_subscription_refused
  by simp

lemma request_headers_Body: "Body (request_headers c r) = Body r"
  by (simp add: request_headers_def Header_Set_def)

lemma createSubscriptionWithPlan_sent:
  "url_Parse lib (baseURL (client w) @ ''/billing/v1/subscriptions'') = Inr u \<Longrightarrow>
   sent (snd (createSubscriptionWithPlan lib customerID planKey priceKey w)) =
     sent w @ [request_headers (client w)
                 \<lparr>Method = ''POST'', URL = u, Header = [],
                  Body = Some (enc_CreateSubscriptionParams
                     \<lparr>CreateSubscriptionParams_CustomerID = customerID,
                      CreateSubscriptionParams_PriceID = [],
                      CreateSubscriptionParams_PlanKey = planKey,
                      CreateSubscriptionParams_PriceKey = priceKey,
                      CreateSubscriptionParams_Quantity = 0,
                      CreateSubscriptionParams_Metadata = None\<rparr>)\<rparr>]"
proof -
  assume u: "url_Parse lib (baseURL (client w) @ ''/billing/v1/subscriptions'') = Inr u"
  let ?p = "\<lparr>CreateSubscriptionParams_CustomerID = customerID,
                      CreateSubscriptionParams_PriceID = [],
                      CreateSubscriptionParams_PlanKey = planKey,
                      CreateSubscriptionParams_PriceKey = priceKey,
                      CreateSubscriptionParams_Quantity = 0,
                      CreateSubscriptionParams_Metadata = None\<rparr>"
  have b: "request_body (Marshal_ptr enc_CreateSubscriptionParams) (Some (Some ?p)) =
             Inr (Some (enc_CreateSubscriptionParams ?p))"
    by (simp add: request_body_def Marshal_ptr_def)
  have ne: "''POST'' \<noteq> []" by simp
  show ?thesis
    using request_sent [OF b validMethod_POST ne, of lib "dec_Subscription lib" "''/billing/v1/subscriptions''"
                          "Some Subscription_zero" w] u
    by (simp add: createSubscriptionWithPlan_world CreateSubscription_def returned_world)
qed

text \<open>
  Claim C10. The workspace ID given to \<open>CreateSubscriptionForWorkspace\<close> and to
  \<open>CreateSubscriptionForGuestWorkspace\<close> has no influence: for two workspace IDs and the same
  customer ID, started in the same state, the two calls return the same result and leave the
  same state, so they send the same request and read the same answer. The request is a POST
  of the customer ID with the plan and price keys of the free tier, or of the guest tier.
\<close>

theorem workspace_id_ignored:
  "CreateSubscriptionForWorkspace lib customerID workspaceID1 w =
     CreateSubscriptionForWorkspace lib customerID workspaceID2 w \<and>
   CreateSubscriptionForGuestWorkspace lib customerID workspaceID1 w =
     CreateSubscriptionForGuestWorkspace lib customerID workspaceID2 w \<and>
   (url_Parse lib (baseURL (client w) @ ''/billing/v1/subscriptions'') = Inr u \<longrightarrow>
      sent (snd (CreateSubscriptionForWorkspace lib customerID workspaceID1 w)) =
        sent w @ [request_headers (client w)
                    \<lparr>Method = ''POST'', URL = u, Header = [],
                     Body = Some (JObject [(''customer_id'', JString (toValidUTF8 customerID)),
                                           (''plan_key'', JString ''free''),
                                           (''price_key'', JString ''free_monthly_EUR'')])\<rparr>] \<and>
      sent (snd (CreateSubscriptionForGuestWorkspace lib customerID workspaceID1 w)) =
        sent w @ [request_headers (client w)
                    \<lparr>Method = ''POST'', URL = u, Header = [],
                     Body = Some (JObject [(''customer_id'', JString (toValidUTF8 customerID)),
                                           (''plan_key'', JString ''guest''),
                                           (''price_key'', JString ''guest_monthly_EUR'')])\<rparr>])"
proof -
  have f: "toValidUTF8 ''free'' = ''free''" "toValidUTF8 ''free_monthly_EUR'' = ''free_monthly_EUR''"
          "toValidUTF8 ''guest'' = ''guest''" "toValidUTF8 ''guest_monthly_EUR'' = ''guest_monthly_EUR''"
    by code_simp+
  have e: "enc_CreateSubscriptionParams
                     \<lparr>CreateSubscriptionParams_CustomerID = customerID,
                      CreateSubscriptionParams_PriceID = [],
                      CreateSubscriptionParams_PlanKey = ''free'',
                      CreateSubscriptionParams_PriceKey = ''free_monthly_EUR'',
                      CreateSubscriptionParams_Quantity = 0,
                      CreateSubscriptionParams_Metadata = None\<rparr> =
           JObject [(''customer_id'', JString (toValidUTF8 customerID)),
                                           (''plan_key'', JString ''free''),
                                           (''price_key'', JString ''free_monthly_EUR'')]"
    by (simp add: enc_CreateSubscriptionParams_def field_string_def omitempty_string_def omitempty_int_def
        omitempty_map_def enc_string_def f)
  have g: "enc_CreateSubscriptionParams
                     \<lparr>CreateSubscriptionParams_CustomerID = customerID,
                      CreateSubscriptionParams_PriceID = [],
                      CreateSubscriptionParams_PlanKey = ''guest'',
                      CreateSubscriptionParams_PriceKey = ''guest_monthly_EUR'',
                      CreateSubscriptionParams_Quantity = 0,
                      CreateSubscriptionParams_Metadata = None\<rparr> =
           JObject [(''customer_id'', JString (toValidUTF8 customerID)),
                                           (''plan_key'', JString ''guest''),
                                           (''price_key'', JString ''guest_monthly_EUR'')]"
    by (simp add: enc_CreateSubscriptionParams_def field_string_def omitempty_string_def omitempty_int_def
        omitempty_map_def enc_string_def f)
  show ?thesis
    using createSubscriptionWithPlan_sent [of lib w u customerID "''free''" "''free_monthly_EUR''"]
          createSubscriptionWithPlan_sent [of lib w u customerID "''guest''" "''guest_monthly_EUR''"]
    by (simp add: CreateSubscriptionForWorkspace_def CreateSubscriptionForGuestWorkspace_def
        FreePlanKey_def FreePriceKey_def GuestPlanKey_def GuestPriceKey_def e g)
qed

theorem workspace_id_ignored_witness:
  "fst (CreateSubscriptionForWorkspace example_lib ''cus_1'' ''ws_1'' (example_world 200 [])) =
     fst (CreateSubscriptionForWorkspace example_lib ''cus_1'' ''ws_2'' (example_world 200 [])) \<and>
   map Body (sent (snd (CreateSubscriptionForWorkspace example_lib ''cus_1'' ''ws_1'' (example_world 200 [])))) =
     [Some (JObject [(''customer_id'', JString ''cus_1''), (''plan_key'', JString ''free''),
                     (''price_key'', JString ''free_monthly_EUR'')])]"
proof -
  have u: "url_Parse example_lib x = Inr x" for x by (simp add: example_lib_def)
  have c: "sent (example_world 200 []) = []" by (simp add: example_world_def)
  have t: "toValidUTF8 ''cus_1'' = ''cus_1''" by code_simp
  note W = workspace_id_ignored [of example_lib "''cus_1''" "''ws_1''" "example_world 200 []" "''ws_2''"
                                    "''https://api.tedo.ai/v1/billing/v1/subscriptions''"]
  have a: "fst (CreateSubscriptionForWorkspace example_lib ''cus_1'' ''ws_1'' (example_world 200 [])) =
     fst (CreateSubscriptionForWorkspace example_lib ''cus_1'' ''ws_2'' (example_world 200 []))"
    using W [THEN conjunct1] by simp
  have b: "map Body (sent (snd (CreateSubscriptionForWorkspace example_lib ''cus_1'' ''ws_1'' (example_world 200 [])))) =
     [Some (JObject [(''customer_id'', JString ''cus_1''), (''plan_key'', JString ''free''),
                     (''price_key'', JString ''free_monthly_EUR'')])]"
    using W [THEN conjunct2, THEN conjunct2]
    by (simp add: u c t request_headers_Body example_world_def NewClient_def defaultBaseURL_def)
  from a b show ?thesis by (rule conjI)
qed

end
